theory Spec2Isabelle
  imports Main "HOL-Library.Sublist" "HOL-Library.Word"
begin

section \<open>Data model of the editor (src/App.tsx)\<close>

text \<open>
  A browser \<^verbatim>\<open>File\<close>: its name, its MIME type and its bytes. The editor keeps the edit
  history as an array of files and decides the media kind of an entry from the MIME type
  alone (\<^verbatim>\<open>type.startsWith('video/')\<close>).
\<close>

type_synonym byte = "8 word"

record js_file =
  file_name :: string
  file_type :: string
  file_bytes :: "byte list"

datatype tab = Retouch | Adjust | Filters | Crop | ThreeD | Animate | RemoveBg | Restore | GroupRestore

text \<open>
  The crop selection of the crop widget (\<^verbatim>\<open>Crop\<close>, \<^verbatim>\<open>PixelCrop\<close>). No handler modelled
  here reads its numbers; they are only set to \<^verbatim>\<open>undefined\<close>.
\<close>

record crop_rect =
  crop_x :: int
  crop_y :: int
  crop_width :: int
  crop_height :: int

text \<open>
  The \<^verbatim>\<open>useState\<close> cells of the \<^verbatim>\<open>App\<close> component, one field per cell.
  \<^verbatim>\<open>null\<close> and \<^verbatim>\<open>undefined\<close> are \<open>None\<close>. \<open>editHotspot\<close> holds the rounded
  natural-resolution pixel; \<open>displayHotspot\<close> the display-space offsets (kept as integers:
  nothing below depends on their value).
\<close>

record app_state =
  history :: "js_file list"
  historyIndex :: int
  prompt :: string
  animatePrompt :: string
  isLoading :: bool
  loadingMessage :: string
  error :: "string option"
  editHotspot :: "(int \<times> int) option"
  displayHotspot :: "(int \<times> int) option"
  activeTab :: tab
  crop :: "crop_rect option"
  completedCrop :: "crop_rect option"

text \<open>
  What a \<^verbatim>\<open>throw\<close> carries, as far as the handlers look at it: an \<^verbatim>\<open>Error\<close> with its
  message, or some other value (\<^verbatim>\<open>err instanceof Error\<close> is false for it, for example the
  event a failed \<^verbatim>\<open>FileReader\<close> rejects with).
\<close>

datatype thrown = Error string | NonError

section \<open>JavaScript primitives the source relies on\<close>

text \<open>\<^verbatim>\<open>Array.prototype.slice(0, end)\<close>: a negative \<^verbatim>\<open>end\<close> counts from the end of the array.\<close>

definition js_slice0 :: "'a list \<Rightarrow> int \<Rightarrow> 'a list" where
  "js_slice0 xs e =
     (if e < 0 then take (nat (int (length xs) + e)) xs else take (nat e) xs)"

text \<open>\<^verbatim>\<open>arr[i] ?? null\<close>: an index outside the array reads \<^verbatim>\<open>undefined\<close>.\<close>

definition js_index :: "'a list \<Rightarrow> int \<Rightarrow> 'a option" where
  "js_index xs i = (if 0 \<le> i \<and> i < int (length xs) then Some (xs ! nat i) else None)"

text \<open>\<^verbatim>\<open>String.prototype.startsWith\<close>.\<close>

definition startsWith :: "string \<Rightarrow> string \<Rightarrow> bool" where
  "startsWith s p = (take (length p) s = p)"

text \<open>
  JavaScript truthiness of an optional string: \<^verbatim>\<open>undefined\<close> and the empty string are
  falsy.
\<close>

definition truthy :: "string option \<Rightarrow> bool" where
  "truthy v = (case v of None \<Rightarrow> False | Some s \<Rightarrow> s \<noteq> [])"

text \<open>An optional string inside a template literal: \<^verbatim>\<open>undefined\<close> prints as its name.\<close>

definition js_str :: "string option \<Rightarrow> string" where
  "js_str v = (case v of None \<Rightarrow> ''undefined'' | Some s \<Rightarrow> s)"

text \<open>
  \<^verbatim>\<open>String.prototype.trim\<close>. Strings are modelled with 8-bit characters, so the white
  space and line terminators are those below U+0100.
\<close>

definition js_whitespace :: "char \<Rightarrow> bool" where
  "js_whitespace c = (of_char c \<in> {9, 10, 11, 12, 13, 32, 160 :: nat})"

definition js_trim :: "string \<Rightarrow> string" where
  "js_trim s = rev (dropWhile js_whitespace (rev (dropWhile js_whitespace s)))"

text \<open>The decimal digits of a number in a template literal (\<^verbatim>\<open>Date.now()\<close>, the seconds).\<close>

fun show_nat :: "nat \<Rightarrow> string" where
  "show_nat n =
     (if n < 10 then [char_of (48 + n)]
      else show_nat (n div 10) @ [char_of (48 + n mod 10)])"

declare show_nat.simps [simp del]

text \<open>\<^verbatim>\<open>s.split(',')\<close>: the pieces between the commas, always at least one.\<close>

fun split_comma :: "string \<Rightarrow> string list" where
  "split_comma [] = [[]]"
| "split_comma (c # cs) =
     (if c = CHR '','' then [] # split_comma cs
      else (case split_comma cs of [] \<Rightarrow> [[c]] | p # ps \<Rightarrow> (c # p) # ps))"

text \<open>
  \<^verbatim>\<open>s.match(/:(.*?);/)\<close>, returning capture group 1. The match starts at the leftmost
  colon from which a semicolon can be reached without crossing a line terminator (the dot
  does not match one); the lazy group is the text up to the first semicolon after it.
\<close>

definition line_terminator :: "char \<Rightarrow> bool" where
  "line_terminator c = (of_char c \<in> {10, 13 :: nat})"

fun upto_semicolon :: "string \<Rightarrow> string option" where
  "upto_semicolon [] = None"
| "upto_semicolon (c # cs) =
     (if c = CHR '';'' then Some []
      else if line_terminator c then None
      else map_option ((#) c) (upto_semicolon cs))"

fun match_mime :: "string \<Rightarrow> string option" where
  "match_mime [] = None"
| "match_mime (c # cs) =
     (if c = CHR '':'' then (case upto_semicolon cs of Some g \<Rightarrow> Some g | None \<Rightarrow> match_mime cs)
      else match_mime cs)"

text \<open>
  \<^verbatim>\<open>atob\<close>, the browser's forgiving base64 decoder: ASCII white space is dropped; when
  the length is then a multiple of four, one or two trailing \<^verbatim>\<open>=\<close> are dropped; a
  length of 1 modulo 4 or a character outside the alphabet throws; every four characters
  give three bytes, a final group of three gives two and of two gives one. The result is a
  binary string (one character per byte).
\<close>

definition ascii_whitespace :: "char \<Rightarrow> bool" where
  "ascii_whitespace c = (of_char c \<in> {9, 10, 12, 13, 32 :: nat})"

definition b64_value :: "char \<Rightarrow> nat option" where
  "b64_value c =
     (let n = of_char c :: nat in
      if 65 \<le> n \<and> n \<le> 90 then Some (n - 65)
      else if 97 \<le> n \<and> n \<le> 122 then Some (n - 71)
      else if 48 \<le> n \<and> n \<le> 57 then Some (n + 4)
      else if n = 43 then Some 62
      else if n = 47 then Some 63
      else None)"

fun b64_bytes :: "nat list \<Rightarrow> nat list" where
  "b64_bytes (a # b # c # d # r) =
     (let n = ((a * 64 + b) * 64 + c) * 64 + d
      in (n div 65536) # (n div 256 mod 256) # (n mod 256) # b64_bytes r)"
| "b64_bytes [a, b, c] = (let n = ((a * 64 + b) * 64 + c) div 4 in [n div 256, n mod 256])"
| "b64_bytes [a, b] = [(a * 64 + b) div 16]"
| "b64_bytes [a] = []"
| "b64_bytes [] = []"

definition strip_padding :: "string \<Rightarrow> string" where
  "strip_padding d =
     (if length d mod 4 = 0 then
        (case rev d of
           x # y # r \<Rightarrow>
             (if x = CHR ''='' \<and> y = CHR ''='' then rev r
              else if x = CHR ''='' then rev (y # r)
              else d)
         | _ \<Rightarrow> d)
      else d)"

text \<open>
  What \<^verbatim>\<open>atob\<close> throws is a \<^verbatim>\<open>DOMException\<close>, which is an \<^verbatim>\<open>Error\<close>. The
  platform fixes that it throws and when; the text of the message is chosen by the
  engine and differs from one engine to the next. The text below stands for it, and no
  property below depends on its wording.
\<close>

definition atob_error :: thrown where
  "atob_error = Error ''The string to be decoded is not correctly encoded.''"

definition atob :: "string \<Rightarrow> thrown + string" where
  "atob s =
     (let d = strip_padding (filter (\<lambda>c. \<not> ascii_whitespace c) s) in
      if length d mod 4 = 1 then Inl atob_error
      else if list_ex (\<lambda>c. b64_value c = None) d then Inl atob_error
      else Inr (map char_of (b64_bytes (map (\<lambda>c. the (b64_value c)) d))))"

text \<open>
  \<^verbatim>\<open>new File([bytes], name, {type})\<close>: the constructor stores the type in ASCII lower case,
  and stores the empty string for a type with a character outside U+0020 to U+007E.
\<close>

definition ascii_lower :: "char \<Rightarrow> char" where
  "ascii_lower c =
     (let n = of_char c :: nat in if 65 \<le> n \<and> n \<le> 90 then char_of (n + 32) else c)"

definition printable :: "char \<Rightarrow> bool" where
  "printable c = (32 \<le> (of_char c :: nat) \<and> (of_char c :: nat) \<le> 126)"

definition new_File :: "byte list \<Rightarrow> string \<Rightarrow> string \<Rightarrow> js_file" where
  "new_File bs filename ty =
     \<lparr>file_name = filename,
      file_type = (if list_all printable ty then map ascii_lower ty else []),
      file_bytes = bs\<rparr>"

section \<open>Data URL to file (src/App.tsx)\<close>

text \<open>
  The loop \<^verbatim>\<open>while(n--) u8arr[n] = bstr.charCodeAt(n)\<close> over a zero-filled array of
  the string's length, from the last index down.
\<close>

fun fill_u8arr :: "nat \<Rightarrow> string \<Rightarrow> byte list \<Rightarrow> byte list" where
  "fill_u8arr 0 bstr u8arr = u8arr"
| "fill_u8arr (Suc n) bstr u8arr = fill_u8arr n bstr (u8arr[n := of_nat (of_char (bstr ! n))])"

definition dataURLtoFile :: "string \<Rightarrow> string \<Rightarrow> thrown + js_file" where
  "dataURLtoFile dataurl filename =
     (let arr = split_comma dataurl in
      if length arr < 2 then Inl (Error ''Invalid data URL'')
      else
        (case match_mime (arr ! 0) of
           None \<Rightarrow> Inl (Error ''Could not parse MIME type from data URL'')
         | Some mime \<Rightarrow>
             if mime = [] then Inl (Error ''Could not parse MIME type from data URL'')
             else
               (case atob (arr ! 1) of
                  Inl e \<Rightarrow> Inl e
                | Inr bstr \<Rightarrow>
                    Inr (new_File
                           (fill_u8arr (length bstr) bstr (replicate (length bstr) 0))
                           filename mime))))"

section \<open>The history store (src/App.tsx)\<close>

definition currentImage :: "app_state \<Rightarrow> js_file option" where
  "currentImage s = js_index (history s) (historyIndex s)"

definition originalImage :: "app_state \<Rightarrow> js_file option" where
  "originalImage s = js_index (history s) 0"

definition isCurrentItemVideo :: "app_state \<Rightarrow> bool" where
  "isCurrentItemVideo s =
     (case currentImage s of None \<Rightarrow> False | Some f \<Rightarrow> startsWith (file_type f) ''video/'')"

definition canUndo :: "app_state \<Rightarrow> bool" where
  "canUndo s = (historyIndex s > 0)"

definition canRedo :: "app_state \<Rightarrow> bool" where
  "canRedo s = (historyIndex s < int (length (history s)) - 1)"

text \<open>
  \<^verbatim>\<open>addImageToHistory\<close> is a callback of one render of the component: it reads
  \<^verbatim>\<open>history\<close> and \<^verbatim>\<open>historyIndex\<close> from its closure, the state \<open>r\<close> of the render that
  created it, and writes through the state setters, that is onto the state \<open>s\<close> that is
  current when it is called. A synchronous caller calls the callback of the current render
  (\<open>r = s\<close>); the continuation of an async handler calls the one it captured before its
  \<^verbatim>\<open>await\<close>.
\<close>

definition addImageToHistory :: "app_state \<Rightarrow> app_state \<Rightarrow> js_file \<Rightarrow> app_state" where
  "addImageToHistory r s newImageFile =
     (let newHistory = js_slice0 (history r) (historyIndex r + 1) @ [newImageFile]
      in s\<lparr>history := newHistory,
           historyIndex := int (length newHistory) - 1,
           crop := None,
           completedCrop := None\<rparr>)"

definition handleImageUpload :: "app_state \<Rightarrow> js_file \<Rightarrow> app_state" where
  "handleImageUpload s f =
     s\<lparr>error := None,
       history := [f],
       historyIndex := 0,
       editHotspot := None,
       displayHotspot := None,
       activeTab := Retouch,
       crop := None,
       completedCrop := None\<rparr>"

definition handleUndo :: "app_state \<Rightarrow> app_state" where
  "handleUndo s =
     (if canUndo s
      then s\<lparr>historyIndex := historyIndex s - 1, editHotspot := None, displayHotspot := None\<rparr>
      else s)"

definition handleRedo :: "app_state \<Rightarrow> app_state" where
  "handleRedo s =
     (if canRedo s
      then s\<lparr>historyIndex := historyIndex s + 1, editHotspot := None, displayHotspot := None\<rparr>
      else s)"

definition handleReset :: "app_state \<Rightarrow> app_state" where
  "handleReset s =
     (if length (history s) > 0
      then s\<lparr>historyIndex := 0, error := None, editHotspot := None, displayHotspot := None\<rparr>
      else s)"

definition handleUploadNew :: "app_state \<Rightarrow> app_state" where
  "handleUploadNew s =
     s\<lparr>history := [],
       historyIndex := - 1,
       error := None,
       prompt := [],
       editHotspot := None,
       displayHotspot := None\<rparr>"

text \<open>
  \<^verbatim>\<open>handleFileSelect(files: FileList | null)\<close>: the upload surface. \<^verbatim>\<open>files[0]\<close> of an
  empty list is \<^verbatim>\<open>undefined\<close>; a \<^verbatim>\<open>File\<close> object is always truthy, whatever its size.
\<close>

definition handleFileSelect :: "app_state \<Rightarrow> js_file list option \<Rightarrow> app_state" where
  "handleFileSelect s files =
     (case files of
        None \<Rightarrow> s
      | Some fs \<Rightarrow> (case js_index fs 0 of None \<Rightarrow> s | Some f \<Rightarrow> handleImageUpload s f))"

text \<open>
  The operations on an existing history, as one step function. An append carries the render
  whose \<^verbatim>\<open>addImageToHistory\<close> is called: the current one for a synchronous append, an
  earlier one for the late answer of an async operation.
\<close>

datatype history_op = Append app_state js_file | Undo | Redo

fun history_step :: "app_state \<Rightarrow> history_op \<Rightarrow> app_state" where
  "history_step s (Append r f) = addImageToHistory r s f"
| "history_step s Undo = handleUndo s"
| "history_step s Redo = handleRedo s"

definition run_history :: "app_state \<Rightarrow> history_op list \<Rightarrow> app_state" where
  "run_history s ops = foldl history_step s ops"

text \<open>The renders that the appends of a run were issued from.\<close>

fun append_renders :: "history_op list \<Rightarrow> app_state list" where
  "append_renders [] = []"
| "append_renders (Append r f # ops) = r # append_renders ops"
| "append_renders (Undo # ops) = append_renders ops"
| "append_renders (Redo # ops) = append_renders ops"

text \<open>
  The invariant of a history that holds an upload \<open>f\<close>: the cursor points at an entry and
  the first entry is \<open>f\<close>.
\<close>

definition history_inv :: "js_file \<Rightarrow> app_state \<Rightarrow> bool" where
  "history_inv f s =
     (0 \<le> historyIndex s \<and> historyIndex s < int (length (history s))
      \<and> originalImage s = Some f)"

section \<open>The remote operation gateway (src/services/geminiService.ts)\<close>

text \<open>
  The parts of the service's \<^verbatim>\<open>GenerateContentResponse\<close> the classification reads. Every
  optional member is an \<open>option\<close>; \<open>cand_parts\<close> is the candidate's
  \<^verbatim>\<open>content?.parts\<close> and \<open>resp_text\<close> is the response's \<^verbatim>\<open>text\<close> accessor.
\<close>

record inline_data =
  inline_mimeType :: "string option"
  inline_data :: "string option"

record part =
  part_inlineData :: "inline_data option"
  part_text :: "string option"

record candidate =
  cand_parts :: "part list option"
  cand_finishReason :: "string option"

record prompt_feedback =
  pf_blockReason :: "string option"
  pf_blockReasonMessage :: "string option"

record response =
  resp_promptFeedback :: "prompt_feedback option"
  resp_candidates :: "candidate list option"
  resp_text :: "string option"

text \<open>\<^verbatim>\<open>response.promptFeedback?.blockReason\<close>\<close>

definition blockReason :: "response \<Rightarrow> string option" where
  "blockReason r = Option.bind (resp_promptFeedback r) pf_blockReason"

text \<open>\<^verbatim>\<open>response.promptFeedback.blockReasonMessage\<close>, read once the block reason is there.\<close>

definition blockReasonMessage :: "response \<Rightarrow> string option" where
  "blockReasonMessage r = Option.bind (resp_promptFeedback r) pf_blockReasonMessage"

text \<open>\<^verbatim>\<open>response.candidates?.[0]\<close>\<close>

definition firstCandidate :: "response \<Rightarrow> candidate option" where
  "firstCandidate r = Option.bind (resp_candidates r) (\<lambda>cs. js_index cs 0)"

text \<open>
  \<^verbatim>\<open>response.candidates?.[0]?.content?.parts?.find(part => part.inlineData)?.inlineData\<close>:
  the inline payload of the first part of the first candidate that has one.
\<close>

definition imagePartFromResponse :: "response \<Rightarrow> inline_data option" where
  "imagePartFromResponse r =
     Option.bind (Option.bind (Option.bind (firstCandidate r) cand_parts)
                    (find (\<lambda>p. part_inlineData p \<noteq> None)))
       part_inlineData"

text \<open>\<^verbatim>\<open>response.candidates?.[0]?.finishReason\<close>\<close>

definition finishReason :: "response \<Rightarrow> string option" where
  "finishReason r = Option.bind (firstCandidate r) cand_finishReason"

text \<open>\<^verbatim>\<open>response.text?.trim()\<close>\<close>

definition textFeedback :: "response \<Rightarrow> string option" where
  "textFeedback r = map_option js_trim (resp_text r)"

definition handleApiResponse :: "response \<Rightarrow> string \<Rightarrow> thrown + string" where
  "handleApiResponse r context =
     (if truthy (blockReason r) then
        Inl (Error (''Request was blocked. Reason: '' @ js_str (blockReason r) @ ''. ''
                    @ (if truthy (blockReasonMessage r) then js_str (blockReasonMessage r) else [])))
      else
        (case imagePartFromResponse r of
           Some i \<Rightarrow>
             Inr (''data:'' @ js_str (inline_mimeType i) @ '';base64,'' @ js_str (inline_data i))
         | None \<Rightarrow>
             if truthy (finishReason r) \<and> finishReason r \<noteq> Some ''STOP'' then
               Inl (Error (''Image generation for '' @ context @ '' stopped unexpectedly. Reason: ''
                           @ js_str (finishReason r) @ ''. This often relates to safety settings.''))
             else
               Inl (Error (''The AI model did not return an image for the '' @ context @ ''. ''
                           @ (if truthy (textFeedback r)
                              then ''The model responded with text: '' @ [CHR 0x22]
                                   @ js_str (textFeedback r) @ [CHR 0x22]
                              else ''This can happen due to safety filters or if the request is too complex. Please try rephrasing your prompt to be more direct.'')))))"

text \<open>
  \<^verbatim>\<open>fileToPart\<close>: the argument is what \<^verbatim>\<open>FileReader.readAsDataURL\<close> settled with, the
  data URL or the rejection.
\<close>

definition fileToPart :: "thrown + string \<Rightarrow> thrown + inline_data" where
  "fileToPart reader =
     (case reader of
        Inl e \<Rightarrow> Inl e
      | Inr dataUrl \<Rightarrow>
          (let arr = split_comma dataUrl in
           if length arr < 2 then Inl (Error ''Invalid data URL'')
           else
             (case match_mime (arr ! 0) of
                None \<Rightarrow> Inl (Error ''Could not parse MIME type from data URL'')
              | Some mimeType \<Rightarrow>
                  if mimeType = [] then Inl (Error ''Could not parse MIME type from data URL'')
                  else Inr \<lparr>inline_mimeType = Some mimeType, inline_data = Some (arr ! 1)\<rparr>)))"

text \<open>
  The seven synchronous operations share one body and differ in the instruction text sent
  to the service and in the context word given to the classification. The instruction text
  is read by the service only; what the service did with it is the argument \<open>api\<close>, the
  response \<^verbatim>\<open>generateContent\<close> settled with or its rejection.
\<close>

definition generateWithContext ::
    "string \<Rightarrow> thrown + string \<Rightarrow> thrown + response \<Rightarrow> thrown + string" where
  "generateWithContext context reader api =
     (case fileToPart reader of
        Inl e \<Rightarrow> Inl e
      | Inr originalImagePart \<Rightarrow>
          (case api of Inl e \<Rightarrow> Inl e | Inr r \<Rightarrow> handleApiResponse r context))"

definition generateEditedImage :: "thrown + string \<Rightarrow> thrown + response \<Rightarrow> thrown + string" where
  "generateEditedImage = generateWithContext ''edit''"

definition generateFilteredImage :: "thrown + string \<Rightarrow> thrown + response \<Rightarrow> thrown + string" where
  "generateFilteredImage = generateWithContext ''filter''"

definition generateAdjustedImage :: "thrown + string \<Rightarrow> thrown + response \<Rightarrow> thrown + string" where
  "generateAdjustedImage = generateWithContext ''adjustment''"

definition generate3DView :: "thrown + string \<Rightarrow> thrown + response \<Rightarrow> thrown + string" where
  "generate3DView = generateWithContext ''3dview''"

definition removeBackground :: "thrown + string \<Rightarrow> thrown + response \<Rightarrow> thrown + string" where
  "removeBackground = generateWithContext ''background removal''"

definition restorePhoto :: "thrown + string \<Rightarrow> thrown + response \<Rightarrow> thrown + string" where
  "restorePhoto = generateWithContext ''photo restoration''"

definition groupRestorePhoto :: "thrown + string \<Rightarrow> thrown + response \<Rightarrow> thrown + string" where
  "groupRestorePhoto = generateWithContext ''group photo restoration''"

subsection \<open>Image to video: initiate, poll, fetch\<close>

text \<open>
  The video operation handle: \<open>op_done\<close> (an absent \<^verbatim>\<open>done\<close> reads as false),
  \<open>op_error\<close> (the error object, with its optional message) and \<open>op_uri\<close>, the value of
  \<^verbatim>\<open>operation.response?.generatedVideos?.[0]?.video?.uri\<close>.
\<close>

record operation =
  op_done :: bool
  op_error :: "string option option"
  op_uri :: "string option"

record fetch_response =
  fetch_ok :: bool
  fetch_statusText :: string
  fetch_blob :: "byte list"

text \<open>
  What the outside world answers during one run of \<^verbatim>\<open>generateVideoFromImage\<close>:
  the file reader, \<^verbatim>\<open>generateVideos\<close>, \<^verbatim>\<open>getVideosOperation\<close> (the answer to the
  query made after \<open>n\<close> earlier ones, for the handle passed), \<^verbatim>\<open>fetch\<close> for a URL,
  \<^verbatim>\<open>Date.now()\<close> and the API key.
\<close>

record video_env =
  env_reader :: "thrown + string"
  env_generateVideos :: "thrown + operation"
  env_getVideosOperation :: "nat \<Rightarrow> operation \<Rightarrow> thrown + operation"
  env_fetch :: "string \<Rightarrow> thrown + fetch_response"
  env_now :: nat
  env_API_KEY :: string

text \<open>What the function does besides returning, in order.\<close>

datatype effect = Progress string | Sleep nat | GetVideosOperation

definition pollInterval :: nat where
  "pollInterval = 10000"

definition maxAttempts :: nat where
  "maxAttempts = 30"

text \<open>One turn of the loop body, before the answer to its query is known.\<close>

definition poll_round :: "nat \<Rightarrow> effect list" where
  "poll_round attempts =
     [Sleep pollInterval,
      Progress (''Checking progress ('' @ show_nat ((attempts + 1) * 10) @ ''s elapsed)...''),
      GetVideosOperation]"

text \<open>
  \<^verbatim>\<open>while (!operation.done && attempts < maxAttempts)\<close>. The result is the effects so
  far and either the rejection of a status query or the handle and the attempt counter the
  loop ended with.
\<close>

function poll ::
    "(nat \<Rightarrow> operation \<Rightarrow> thrown + operation) \<Rightarrow> operation \<Rightarrow> nat \<Rightarrow> effect list
       \<Rightarrow> effect list \<times> (thrown + operation \<times> nat)" where
  "poll getOp operation attempts log =
     (if \<not> op_done operation \<and> attempts < maxAttempts then
        (case getOp attempts operation of
           Inl e \<Rightarrow> (log @ poll_round attempts, Inl e)
         | Inr operation' \<Rightarrow> poll getOp operation' (attempts + 1) (log @ poll_round attempts))
      else (log, Inr (operation, attempts)))"
  by pat_completeness auto
termination
  by (relation "measure (\<lambda>(getOp, operation, attempts, log). maxAttempts - attempts)") auto

declare poll.simps [simp del]

definition afterPolling :: "video_env \<Rightarrow> operation \<Rightarrow> effect list \<times> (thrown + js_file)" where
  "afterPolling env operation =
     (if \<not> op_done operation then
        ([], Inl (Error ''Video generation timed out after 5 minutes.''))
      else
        (case op_error operation of
           Some m \<Rightarrow> ([], Inl (Error (''Video generation failed: '' @ js_str m)))
         | None \<Rightarrow>
             if \<not> truthy (op_uri operation) then
               ([], Inl (Error ''Video generation finished, but no download link was provided.''))
             else
               (case env_fetch env (js_str (op_uri operation) @ ''&key='' @ env_API_KEY env) of
                  Inl e \<Rightarrow> ([Progress ''Downloading generated video...''], Inl e)
                | Inr resp \<Rightarrow>
                    if \<not> fetch_ok resp then
                      ([Progress ''Downloading generated video...''],
                       Inl (Error (''Failed to download video: '' @ fetch_statusText resp)))
                    else
                      ([Progress ''Downloading generated video...'',
                        Progress ''Video downloaded successfully!''],
                       Inr (new_File (fetch_blob resp)
                              (''video-'' @ show_nat (env_now env) @ ''.mp4'') ''video/mp4'')))))"

definition generateVideoFromImage :: "video_env \<Rightarrow> effect list \<times> (thrown + js_file)" where
  "generateVideoFromImage env =
     (case fileToPart (env_reader env) of
        Inl e \<Rightarrow> ([Progress ''Initializing video generation...''], Inl e)
      | Inr inlineData \<Rightarrow>
          (case env_generateVideos env of
             Inl e \<Rightarrow>
               ([Progress ''Initializing video generation...'',
                 Progress ''Sending request to the video model...''], Inl e)
           | Inr operation0 \<Rightarrow>
               (case poll (env_getVideosOperation env) operation0 0
                       [Progress ''Initializing video generation...'',
                        Progress ''Sending request to the video model...'',
                        Progress ''AI is creating your video. This may take a few minutes...''] of
                  (log, Inl e) \<Rightarrow> (log, Inl e)
                | (log, Inr (operation, attempts)) \<Rightarrow>
                    (case afterPolling env operation of (log', res) \<Rightarrow> (log @ log', res)))))"

section \<open>The operation handlers (src/App.tsx)\<close>

text \<open>
  An async handler runs in two steps. The first runs at the click, on the state \<open>s\<close> of
  the render the handler belongs to: the guards and, when they pass, the state updates
  before the \<^verbatim>\<open>await\<close>; it returns the new state and whether the request was sent. The
  second runs when the awaited gateway call settles, on the state \<open>t\<close> that is current by
  then, with what the handler captured at the click: the render \<open>r\<close> it belongs to, and
  so the \<^verbatim>\<open>addImageToHistory\<close> of that render. The argument \<open>result\<close> is the value the
  promise resolved with (\<open>Inr\<close>) or rejected with (\<open>Inl\<close>); \<open>now\<close> is \<^verbatim>\<open>Date.now()\<close>.
  The handler under its own name is the run in which nothing else happens between the two
  steps.
\<close>

text \<open>\<^verbatim>\<open>err instanceof Error ? err.message : 'An unknown error occurred.'\<close>\<close>

definition errorMessage :: "thrown \<Rightarrow> string" where
  "errorMessage err = (case err of Error m \<Rightarrow> m | NonError \<Rightarrow> ''An unknown error occurred.'')"

definition defaultLoadingMessage :: string where
  "defaultLoadingMessage = ''AI is working its magic...''"

text \<open>
  The body shared by the filter, adjustment, 3-D view, background removal, restore and
  group restore handlers. They differ in four strings and in whether the \<^verbatim>\<open>finally\<close>
  block also resets the loading message (\<open>resetMessage\<close>).
\<close>

definition applyGenerated_start :: "string \<Rightarrow> string \<Rightarrow> app_state \<Rightarrow> app_state \<times> bool" where
  "applyGenerated_start noImage loadingMsg s =
     (if currentImage s = None \<or> isCurrentItemVideo s then (s\<lparr>error := Some noImage\<rparr>, False)
      else (s\<lparr>isLoading := True, loadingMessage := loadingMsg, error := None\<rparr>, True))"

definition applyGenerated_settle ::
    "string \<Rightarrow> string \<Rightarrow> bool \<Rightarrow> app_state \<Rightarrow> nat \<Rightarrow> thrown + string
       \<Rightarrow> app_state \<Rightarrow> app_state" where
  "applyGenerated_settle filePrefix failPrefix resetMessage r now result t =
     (let t2 = (case result of
                  Inl err \<Rightarrow> t\<lparr>error := Some (failPrefix @ errorMessage err)\<rparr>
                | Inr url \<Rightarrow>
                    (case dataURLtoFile url (filePrefix @ show_nat now @ ''.png'') of
                       Inl err \<Rightarrow> t\<lparr>error := Some (failPrefix @ errorMessage err)\<rparr>
                     | Inr newImageFile \<Rightarrow> addImageToHistory r t newImageFile));
          t3 = t2\<lparr>isLoading := False\<rparr>
      in if resetMessage then t3\<lparr>loadingMessage := defaultLoadingMessage\<rparr> else t3)"

definition applyGenerated ::
    "string \<Rightarrow> string \<Rightarrow> string \<Rightarrow> string \<Rightarrow> bool
       \<Rightarrow> app_state \<Rightarrow> nat \<Rightarrow> thrown + string \<Rightarrow> app_state" where
  "applyGenerated noImage loadingMsg filePrefix failPrefix resetMessage s now result =
     (case applyGenerated_start noImage loadingMsg s of
        (s1, sent) \<Rightarrow>
          if sent then applyGenerated_settle filePrefix failPrefix resetMessage s now result s1
          else s1)"

text \<open>The two steps of the filter handler by name.\<close>

definition handleApplyFilter_start :: "app_state \<Rightarrow> app_state \<times> bool" where
  "handleApplyFilter_start =
     applyGenerated_start ''No image loaded to apply a filter to.'' defaultLoadingMessage"

definition handleApplyFilter_settle ::
    "app_state \<Rightarrow> nat \<Rightarrow> thrown + string \<Rightarrow> app_state \<Rightarrow> app_state" where
  "handleApplyFilter_settle =
     applyGenerated_settle ''filtered-'' ''Failed to apply the filter. '' False"

definition handleApplyFilter :: "app_state \<Rightarrow> nat \<Rightarrow> thrown + string \<Rightarrow> app_state" where
  "handleApplyFilter =
     applyGenerated ''No image loaded to apply a filter to.'' defaultLoadingMessage
       ''filtered-'' ''Failed to apply the filter. '' False"

definition handleApplyAdjustment :: "app_state \<Rightarrow> nat \<Rightarrow> thrown + string \<Rightarrow> app_state" where
  "handleApplyAdjustment =
     applyGenerated ''No image loaded to apply an adjustment to.'' defaultLoadingMessage
       ''adjusted-'' ''Failed to apply the adjustment. '' False"

definition handleGenerate3DView :: "app_state \<Rightarrow> nat \<Rightarrow> thrown + string \<Rightarrow> app_state" where
  "handleGenerate3DView =
     applyGenerated ''No image loaded to generate a 3D view from.'' defaultLoadingMessage
       ''3dview-'' ''Failed to generate the 3D view. '' False"

definition handleRemoveBackground :: "app_state \<Rightarrow> nat \<Rightarrow> thrown + string \<Rightarrow> app_state" where
  "handleRemoveBackground =
     applyGenerated ''No image loaded to remove background from.''
       ''AI is removing the background...''
       ''bg-removed-'' ''Failed to remove background. '' True"

definition handleRestorePhoto :: "app_state \<Rightarrow> nat \<Rightarrow> thrown + string \<Rightarrow> app_state" where
  "handleRestorePhoto =
     applyGenerated ''No image loaded to restore.'' ''AI is restoring your photo...''
       ''restored-'' ''Failed to restore photo. '' True"

definition handleGroupRestorePhoto :: "app_state \<Rightarrow> nat \<Rightarrow> thrown + string \<Rightarrow> app_state" where
  "handleGroupRestorePhoto =
     applyGenerated ''No image loaded to restore.'' ''AI is restoring your group photo...''
       ''restored-group-'' ''Failed to restore group photo. '' True"

text \<open>The localized edit: two more guards, and the hotspot is cleared after the append.\<close>

definition handleGenerate_start :: "app_state \<Rightarrow> app_state \<times> bool" where
  "handleGenerate_start s =
     (if currentImage s = None \<or> isCurrentItemVideo s then
        (s\<lparr>error := Some ''No image loaded to edit.''\<rparr>, False)
      else if js_trim (prompt s) = [] then
        (s\<lparr>error := Some ''Please enter a description for your edit.''\<rparr>, False)
      else if editHotspot s = None then
        (s\<lparr>error := Some ''Please click on the image to select an area to edit.''\<rparr>, False)
      else
        (s\<lparr>isLoading := True, loadingMessage := defaultLoadingMessage, error := None\<rparr>, True))"

definition handleGenerate_settle ::
    "app_state \<Rightarrow> nat \<Rightarrow> thrown + string \<Rightarrow> app_state \<Rightarrow> app_state" where
  "handleGenerate_settle r now result t =
     (let t2 = (case result of
                  Inl err \<Rightarrow>
                    t\<lparr>error := Some (''Failed to generate the image. '' @ errorMessage err)\<rparr>
                | Inr editedImageUrl \<Rightarrow>
                    (case dataURLtoFile editedImageUrl (''edited-'' @ show_nat now @ ''.png'') of
                       Inl err \<Rightarrow>
                         t\<lparr>error := Some (''Failed to generate the image. '' @ errorMessage err)\<rparr>
                     | Inr newImageFile \<Rightarrow>
                         (addImageToHistory r t newImageFile)
                           \<lparr>editHotspot := None, displayHotspot := None\<rparr>))
      in t2\<lparr>isLoading := False\<rparr>)"

definition handleGenerate :: "app_state \<Rightarrow> nat \<Rightarrow> thrown + string \<Rightarrow> app_state" where
  "handleGenerate s now result =
     (case handleGenerate_start s of
        (s1, sent) \<Rightarrow> if sent then handleGenerate_settle s now result s1 else s1)"

text \<open>
  The animation: \<open>p\<close> is the prompt handed over by the panel, \<open>result\<close> what
  \<^verbatim>\<open>generateVideoFromImage\<close> settled with. Its progress callbacks write the loading
  message, which the \<^verbatim>\<open>finally\<close> block resets.
\<close>

definition handleGenerateVideo_start :: "app_state \<Rightarrow> string \<Rightarrow> app_state \<times> bool" where
  "handleGenerateVideo_start s p =
     (if currentImage s = None \<or> isCurrentItemVideo s then
        (s\<lparr>error := Some ''No image loaded to animate.''\<rparr>, False)
      else if js_trim p = [] then
        (s\<lparr>error := Some ''Please enter a description for the animation.''\<rparr>, False)
      else (s\<lparr>isLoading := True, error := None\<rparr>, True))"

definition handleGenerateVideo_settle ::
    "app_state \<Rightarrow> thrown + js_file \<Rightarrow> app_state \<Rightarrow> app_state" where
  "handleGenerateVideo_settle r result t =
     (let t2 = (case result of
                  Inl err \<Rightarrow>
                    t\<lparr>error := Some (''Failed to generate the video. '' @ errorMessage err)\<rparr>
                | Inr videoFile \<Rightarrow> (addImageToHistory r t videoFile)\<lparr>animatePrompt := []\<rparr>)
      in t2\<lparr>isLoading := False, loadingMessage := defaultLoadingMessage\<rparr>)"

definition handleGenerateVideo :: "app_state \<Rightarrow> string \<Rightarrow> thrown + js_file \<Rightarrow> app_state" where
  "handleGenerateVideo s p result =
     (case handleGenerateVideo_start s p of
        (s1, sent) \<Rightarrow> if sent then handleGenerateVideo_settle s result s1 else s1)"

text \<open>
  The crop: \<open>img\<close> says whether the image element is mounted, \<open>ctx\<close> whether the canvas
  gave a 2-D context, \<open>croppedImageUrl\<close> is what \<^verbatim>\<open>canvas.toDataURL\<close> returned. The
  handler is synchronous, so it appends with the callback of its own render. There is no
  \<^verbatim>\<open>try\<close> here: a throw of \<^verbatim>\<open>dataURLtoFile\<close> leaves the handler.
\<close>

definition handleApplyCrop ::
    "app_state \<Rightarrow> bool \<Rightarrow> bool \<Rightarrow> string \<Rightarrow> nat \<Rightarrow> thrown + app_state" where
  "handleApplyCrop s img ctx croppedImageUrl now =
     (if completedCrop s = None \<or> \<not> img then
        Inr (s\<lparr>error := Some ''Please select an area to crop.''\<rparr>)
      else if \<not> ctx then Inr (s\<lparr>error := Some ''Could not process the crop.''\<rparr>)
      else
        (case dataURLtoFile croppedImageUrl (''cropped-'' @ show_nat now @ ''.png'') of
           Inl err \<Rightarrow> Inl err
         | Inr newImageFile \<Rightarrow> Inr (addImageToHistory s s newImageFile)))"

section \<open>Vocabulary of the properties\<close>

text \<open>
  A character of a registered media type name (the restricted names of RFC 6838): a letter,
  a digit or one of \<^verbatim>\<open>! # $ & - ^ _ . +\<close>.
\<close>

definition restricted_name_char :: "char \<Rightarrow> bool" where
  "restricted_name_char c =
     (let n = of_char c :: nat in
      (48 \<le> n \<and> n \<le> 57) \<or> (65 \<le> n \<and> n \<le> 90) \<or> (97 \<le> n \<and> n \<le> 122)
      \<or> n \<in> {33, 35, 36, 38, 45, 94, 95, 46, 43})"

text \<open>
  The MIME type of an image payload: the type name \<^verbatim>\<open>image\<close> in any letter case, a
  slash and a subtype name, as in \<^verbatim>\<open>image/png\<close> or \<^verbatim>\<open>image/svg+xml\<close>.
\<close>

definition image_media_type :: "string \<Rightarrow> bool" where
  "image_media_type m =
     (map ascii_lower (take 6 m) = ''image/'' \<and> drop 6 m \<noteq> []
      \<and> list_all restricted_name_char (drop 6 m))"

text \<open>The file a decoded payload is expected to become: the given type, one byte per character.\<close>

definition decoded_file :: "string \<Rightarrow> string \<Rightarrow> string \<Rightarrow> js_file" where
  "decoded_file filename m bstr =
     \<lparr>file_name = filename, file_type = m, file_bytes = map (\<lambda>c. of_nat (of_char c)) bstr\<rparr>"

text \<open>The hint that ends the message of a response without image and without text.\<close>

definition no_image_hint :: string where
  "no_image_hint = ''This can happen due to safety filters or if the request is too complex. Please try rephrasing your prompt to be more direct.''"

text \<open>
  The handle the video service hands back on the \<open>j\<close>-th status query when every query is
  made with the handle returned by the one before it, starting from \<open>operation\<close>; a
  rejected query ends the sequence.
\<close>

fun handle_after ::
    "(nat \<Rightarrow> operation \<Rightarrow> thrown + operation) \<Rightarrow> operation \<Rightarrow> nat \<Rightarrow> thrown + operation" where
  "handle_after getOp operation 0 = Inr operation"
| "handle_after getOp operation (Suc j) =
     (case handle_after getOp operation j of Inl e \<Rightarrow> Inl e | Inr held \<Rightarrow> getOp j held)"

text \<open>Whether the handle after \<open>j\<close> queries is there and not done.\<close>

definition pending_after ::
    "(nat \<Rightarrow> operation \<Rightarrow> thrown + operation) \<Rightarrow> operation \<Rightarrow> nat \<Rightarrow> bool" where
  "pending_after getOp operation j =
     (case handle_after getOp operation j of Inl e \<Rightarrow> False | Inr held \<Rightarrow> \<not> op_done held)"

text \<open>The time slept in a run of effects, in milliseconds.\<close>

definition sleep_total :: "effect list \<Rightarrow> nat" where
  "sleep_total log = sum_list (map (\<lambda>e. case e of Sleep ms \<Rightarrow> ms | _ \<Rightarrow> 0) log)"

text \<open>The progress messages of \<^verbatim>\<open>generateVideoFromImage\<close> up to the start of the loop.\<close>

definition startup_progress :: "effect list" where
  "startup_progress =
     [Progress ''Initializing video generation...'',
      Progress ''Sending request to the video model...'',
      Progress ''AI is creating your video. This may take a few minutes...'']"

section \<open>Example sessions\<close>

text \<open>The initial values of the state cells of the component.\<close>

definition initial_state :: app_state where
  "initial_state =
     \<lparr>history = [], historyIndex = - 1, prompt = [], animatePrompt = [], isLoading = False,
      loadingMessage = defaultLoadingMessage, error = None, editHotspot = None,
      displayHotspot = None, activeTab = Retouch, crop = None, completedCrop = None\<rparr>"

definition image_A :: js_file where
  "image_A = \<lparr>file_name = ''a.png'', file_type = ''image/png'', file_bytes = [1, 2, 3]\<rparr>"

definition image_B :: js_file where
  "image_B = \<lparr>file_name = ''b.png'', file_type = ''image/png'', file_bytes = [4, 5]\<rparr>"

definition image_C :: js_file where
  "image_C = \<lparr>file_name = ''c.png'', file_type = ''image/png'', file_bytes = [6]\<rparr>"

definition image_X :: js_file where
  "image_X = \<lparr>file_name = ''x.png'', file_type = ''image/png'', file_bytes = [7, 8]\<rparr>"

definition empty_file :: js_file where
  "empty_file = \<lparr>file_name = ''empty.png'', file_type = ''image/png'', file_bytes = []\<rparr>"

text \<open>A session after an upload and two edits, with a point selected and an error shown.\<close>

definition edited_state :: app_state where
  "edited_state =
     initial_state\<lparr>history := [image_A, image_B, image_C], historyIndex := 2,
       editHotspot := Some (10, 20), displayHotspot := Some (5, 10),
       error := Some ''Failed to apply the filter. x''\<rparr>"

text \<open>A session right after an upload, with an instruction typed, a point selected and a
  crop rectangle drawn.\<close>

definition ready_state :: app_state where
  "ready_state =
     (handleImageUpload initial_state image_A)
       \<lparr>prompt := ''make the sky blue'', editHotspot := Some (10, 20),
        displayHotspot := Some (5, 10), completedCrop := Some \<lparr>crop_x = 0, crop_y = 0, crop_width = 8, crop_height = 8\<rparr>\<rparr>"

text \<open>
  The file that the answer \<^verbatim>\<open>data:image/png;base64,aGk=\<close> to a filter becomes at the
  time \<open>1700000000000\<close>, and the one a second answer becomes a minute later.
\<close>

definition filtered_file :: js_file where
  "filtered_file =
     \<lparr>file_name = ''filtered-1700000000000.png'', file_type = ''image/png'',
      file_bytes = [104, 105]\<rparr>"

definition filtered_again_file :: js_file where
  "filtered_again_file =
     \<lparr>file_name = ''filtered-1700000060000.png'', file_type = ''image/png'',
      file_bytes = [104, 105]\<rparr>"

text \<open>
  A late answer after a new upload. A filter is started on an upload of \<open>image_A\<close>; while
  it is loading the user clicks Upload New and uploads \<open>image_X\<close>; then the filter answers.
\<close>

definition session_A :: app_state where
  "session_A = handleImageUpload initial_state image_A"

definition session_A_loading :: app_state where
  "session_A_loading = fst (handleApplyFilter_start session_A)"

definition session_X :: app_state where
  "session_X = handleImageUpload (handleUploadNew session_A_loading) image_X"

definition session_X_answered :: app_state where
  "session_X_answered =
     handleApplyFilter_settle session_A 1700000000000 (Inr ''data:image/png;base64,aGk='')
       session_X"

text \<open>
  A late answer after an undo. A first filter on the upload of \<open>image_A\<close> has answered; a
  second one is started; while it is loading the user clicks Undo; then it answers.
\<close>

definition session_AF :: app_state where
  "session_AF =
     handleApplyFilter session_A 1700000000000 (Inr ''data:image/png;base64,aGk='')"

definition session_AF_loading :: app_state where
  "session_AF_loading = fst (handleApplyFilter_start session_AF)"

definition session_AF_undone :: app_state where
  "session_AF_undone = handleUndo session_AF_loading"

definition session_AF_answered :: app_state where
  "session_AF_answered =
     handleApplyFilter_settle session_AF 1700000060000 (Inr ''data:image/png;base64,aGk='')
       session_AF_undone"

text \<open>Responses of the service: one for each branch of the classification.\<close>

definition image_part :: part where
  "image_part =
     \<lparr>part_inlineData = Some \<lparr>inline_mimeType = Some ''image/png'', inline_data = Some ''aGk=''\<rparr>,
      part_text = None\<rparr>"

definition other_image_part :: part where
  "other_image_part =
     \<lparr>part_inlineData = Some \<lparr>inline_mimeType = Some ''image/jpeg'', inline_data = Some ''/w==''\<rparr>,
      part_text = None\<rparr>"

definition text_part :: part where
  "text_part = \<lparr>part_inlineData = None, part_text = Some ''Here is your image.''\<rparr>"

definition blocked_response :: response where
  "blocked_response =
     \<lparr>resp_promptFeedback = Some \<lparr>pf_blockReason = Some ''SAFETY'', pf_blockReasonMessage = None\<rparr>,
      resp_candidates = Some [\<lparr>cand_parts = Some [image_part], cand_finishReason = Some ''STOP''\<rparr>],
      resp_text = None\<rparr>"

definition blocked_with_message_response :: response where
  "blocked_with_message_response =
     \<lparr>resp_promptFeedback =
        Some \<lparr>pf_blockReason = Some ''OTHER'',
              pf_blockReasonMessage = Some ''The prompt was flagged.''\<rparr>,
      resp_candidates = None,
      resp_text = None\<rparr>"

definition image_response :: response where
  "image_response =
     \<lparr>resp_promptFeedback = None,
      resp_candidates =
        Some [\<lparr>cand_parts = Some [text_part, image_part, other_image_part],
               cand_finishReason = Some ''SAFETY''\<rparr>],
      resp_text = Some ''Here is your image.''\<rparr>"

definition stopped_response :: response where
  "stopped_response =
     \<lparr>resp_promptFeedback = Some \<lparr>pf_blockReason = None, pf_blockReasonMessage = None\<rparr>,
      resp_candidates = Some [\<lparr>cand_parts = Some [text_part], cand_finishReason = Some ''SAFETY''\<rparr>],
      resp_text = Some ''Here is your image.''\<rparr>"

definition text_response :: response where
  "text_response =
     \<lparr>resp_promptFeedback = None,
      resp_candidates = Some [\<lparr>cand_parts = Some [text_part], cand_finishReason = Some ''STOP''\<rparr>],
      resp_text = Some '' I cannot do that. ''\<rparr>"

definition empty_response :: response where
  "empty_response = \<lparr>resp_promptFeedback = None, resp_candidates = None, resp_text = None\<rparr>"

text \<open>
  Video services. The first never completes the operation; the second reports it done, with
  a download link, on the third status query; the third rejects the second query.
\<close>

definition never_done_env :: video_env where
  "never_done_env =
     \<lparr>env_reader = Inr ''data:image/png;base64,aGk='',
      env_generateVideos = Inr \<lparr>op_done = False, op_error = None, op_uri = None\<rparr>,
      env_getVideosOperation = (\<lambda>n operation. Inr (operation\<lparr>op_done := False\<rparr>)),
      env_fetch = (\<lambda>url. Inl NonError),
      env_now = 1700000000000,
      env_API_KEY = ''key''\<rparr>"

definition done_on_third_env :: video_env where
  "done_on_third_env =
     \<lparr>env_reader = Inr ''data:image/png;base64,aGk='',
      env_generateVideos = Inr \<lparr>op_done = False, op_error = None, op_uri = None\<rparr>,
      env_getVideosOperation =
        (\<lambda>n operation.
           if n < 2 then Inr operation
           else Inr (operation\<lparr>op_done := True, op_uri := Some ''https://videos.example/v1?alt=media''\<rparr>)),
      env_fetch =
        (\<lambda>url. Inr \<lparr>fetch_ok = True, fetch_statusText = ''OK'', fetch_blob = [0, 0, 0, 24]\<rparr>),
      env_now = 1700000000000,
      env_API_KEY = ''key''\<rparr>"

definition rejecting_env :: video_env where
  "rejecting_env =
     \<lparr>env_reader = Inr ''data:image/png;base64,aGk='',
      env_generateVideos = Inr \<lparr>op_done = False, op_error = None, op_uri = None\<rparr>,
      env_getVideosOperation =
        (\<lambda>n operation. if n = 1 then Inl (Error ''fetch failed'') else Inr operation),
      env_fetch = (\<lambda>url. Inl NonError),
      env_now = 1700000000000,
      env_API_KEY = ''key''\<rparr>"

section \<open>Properties of the data URL decoding\<close>

lemma split_comma_no_comma: "CHR '','' \<notin> set b \<Longrightarrow> split_comma b = [b]"
  by (induction b) auto

lemma split_comma_append:
  "CHR '','' \<notin> set a \<Longrightarrow> split_comma (a @ CHR '','' # b) = a # split_comma b"
  by (induction a) auto

lemma upto_semicolon_plain:
  "CHR '';'' \<notin> set m \<Longrightarrow> list_all (\<lambda>c. \<not> line_terminator c) m \<Longrightarrow>
     upto_semicolon (m @ CHR '';'' # rest) = Some m"
  by (induction m) auto

lemma match_mime_data_url:
  "CHR '';'' \<notin> set m \<Longrightarrow> list_all (\<lambda>c. \<not> line_terminator c) m \<Longrightarrow>
     match_mime (''data:'' @ m @ '';base64'') = Some m"
  using upto_semicolon_plain [of m "''base64''"] by simp

lemma fill_u8arr_map_aux:
  "n \<le> length bstr \<Longrightarrow> length u8arr = length bstr \<Longrightarrow>
     fill_u8arr n bstr u8arr = map (\<lambda>c. of_nat (of_char c)) (take n bstr) @ drop n u8arr"
proof (induction n arbitrary: u8arr)
  case 0
  show ?case by simp
next
  case (Suc n)
  then have "fill_u8arr (Suc n) bstr u8arr
      = map (\<lambda>c. of_nat (of_char c)) (take n bstr) @ drop n (u8arr[n := of_nat (of_char (bstr ! n))])"
    by simp
  also have "drop n (u8arr[n := of_nat (of_char (bstr ! n))])
      = of_nat (of_char (bstr ! n)) # drop (Suc n) u8arr"
    using Suc.prems by (simp add: drop_update_swap Cons_nth_drop_Suc [symmetric] upd_conv_take_nth_drop)
  finally show ?case using Suc.prems by (simp add: take_Suc_conv_app_nth)
qed

lemma fill_u8arr_map:
  "fill_u8arr (length bstr) bstr (replicate (length bstr) 0) = map (\<lambda>c. of_nat (of_char c)) bstr"
  using fill_u8arr_map_aux [of "length bstr" bstr "replicate (length bstr) 0"] by simp

lemma strip_padding_superset: "set d \<subseteq> insert CHR ''='' (set (strip_padding d))"
proof -
  have "set d \<subseteq> insert CHR ''='' (set (rev r))" if "rev d = CHR ''='' # CHR ''='' # r" for r
  proof -
    from that have "d = rev (CHR ''='' # CHR ''='' # r)" by (metis rev_rev_ident)
    then show ?thesis by auto
  qed
  moreover have "set d \<subseteq> insert CHR ''='' (set (rev (y # r)))" if "rev d = CHR ''='' # y # r" for y r
  proof -
    from that have "d = rev (CHR ''='' # y # r)" by (metis rev_rev_ident)
    then show ?thesis by auto
  qed
  ultimately show ?thesis
    by (auto simp: strip_padding_def split: list.splits)
qed

lemma atob_no_comma:
  assumes "atob d = Inr bstr"
  shows "CHR '','' \<notin> set d"
proof
  assume c: "CHR '','' \<in> set d"
  let ?f = "filter (\<lambda>c. \<not> ascii_whitespace c) d"
  have "\<not> ascii_whitespace CHR '',''" by (simp add: ascii_whitespace_def)
  with c have "CHR '','' \<in> set ?f" by simp
  with strip_padding_superset [of ?f] have "CHR '','' \<in> set (strip_padding ?f)" by auto
  moreover have "b64_value CHR '','' = None" by (simp add: b64_value_def)
  ultimately have "list_ex (\<lambda>c. b64_value c = None) (strip_padding ?f)"
    unfolding list_ex_iff by blast
  then have "atob d = Inl atob_error" by (simp add: atob_def Let_def)
  with assms show False by simp
qed

lemma printable_not_line_terminator: "printable c \<Longrightarrow> \<not> line_terminator c"
  by (auto simp: printable_def line_terminator_def)

text \<open>
  A type that is not empty, printable and free of the comma and the semicolon that delimit
  it inside the data URL comes back in lower case, as the file constructor stores it; the
  data comes back as the bytes \<^verbatim>\<open>atob\<close> decodes it to.
\<close>

lemma dataURLtoFile_data_url:
  assumes ne: "m \<noteq> []"
    and m: "list_all (\<lambda>c. printable c \<and> c \<noteq> CHR '','' \<and> c \<noteq> CHR '';'') m"
    and d: "atob d = Inr bstr"
  shows "dataURLtoFile (''data:'' @ m @ '';base64,'' @ d) filename
           = Inr \<lparr>file_name = filename, file_type = map ascii_lower m,
                  file_bytes = map (\<lambda>c. of_nat (of_char c)) bstr\<rparr>"
proof -
  have pr: "printable c" if "c \<in> set m" for c
    using m that unfolding list_all_iff by blast
  have c1: "CHR '','' \<notin> set m" using m unfolding list_all_iff by blast
  have c2: "CHR '';'' \<notin> set m" using m unfolding list_all_iff by blast
  have lt: "list_all (\<lambda>c. \<not> line_terminator c) m"
    unfolding list_all_iff using pr printable_not_line_terminator by blast
  have ap: "list_all printable m" unfolding list_all_iff using pr by blast
  have nc: "CHR '','' \<notin> set (''data:'' @ m @ '';base64'')" using c1 by simp
  have "split_comma (''data:'' @ m @ '';base64,'' @ d)
          = split_comma ((''data:'' @ m @ '';base64'') @ CHR '','' # d)"
    by simp
  also have "\<dots> = (''data:'' @ m @ '';base64'') # split_comma d"
    using nc by (rule split_comma_append)
  also have "\<dots> = [''data:'' @ m @ '';base64'', d]"
    using atob_no_comma [OF d] by (simp add: split_comma_no_comma)
  finally have s: "split_comma (''data:'' @ m @ '';base64,'' @ d) = [''data:'' @ m @ '';base64'', d]" .
  have mm: "match_mime (''data:'' @ m @ '';base64'') = Some m"
    using c2 lt by (rule match_mime_data_url)
  show ?thesis
    unfolding dataURLtoFile_def s Let_def
    using mm d ne ap by (simp add: new_File_def fill_u8arr_map)
qed

lemma restricted_name_char_safe:
  "restricted_name_char c \<Longrightarrow> printable c \<and> c \<noteq> CHR '','' \<and> c \<noteq> CHR '';''"
  by (auto simp: restricted_name_char_def printable_def Let_def)

lemma ascii_lower_safe:
  "printable (ascii_lower c) \<and> ascii_lower c \<noteq> CHR '','' \<and> ascii_lower c \<noteq> CHR '';''
     \<Longrightarrow> printable c \<and> c \<noteq> CHR '','' \<and> c \<noteq> CHR '';''"
  by (auto simp: ascii_lower_def printable_def Let_def char_of_eq_iff split: if_splits)

text \<open>
  An image media type is such a type, and in lower case it starts with \<^verbatim>\<open>image/\<close>, so
  that it does not start with \<^verbatim>\<open>video/\<close>.
\<close>

lemma image_media_type_facts:
  assumes "image_media_type m"
  shows "m \<noteq> []"
    and "list_all (\<lambda>c. printable c \<and> c \<noteq> CHR '','' \<and> c \<noteq> CHR '';'') m"
    and "startsWith (map ascii_lower m) ''image/''"
    and "\<not> startsWith (map ascii_lower m) ''video/''"
proof -
  from assms have t: "map ascii_lower (take 6 m) = ''image/''"
    and s: "list_all restricted_name_char (drop 6 m)"
    by (simp_all add: image_media_type_def)
  from t show "m \<noteq> []" by auto
  have "list_all (\<lambda>c. printable (ascii_lower c) \<and> ascii_lower c \<noteq> CHR '',''
          \<and> ascii_lower c \<noteq> CHR '';'') (take 6 m)"
  proof -
    have "list_all (\<lambda>c. printable c \<and> c \<noteq> CHR '','' \<and> c \<noteq> CHR '';'') (map ascii_lower (take 6 m))"
      unfolding t by (simp add: printable_def)
    then show ?thesis by (simp add: list_all_iff)
  qed
  then have a: "list_all (\<lambda>c. printable c \<and> c \<noteq> CHR '','' \<and> c \<noteq> CHR '';'') (take 6 m)"
    unfolding list_all_iff using ascii_lower_safe by blast
  from s have b: "list_all (\<lambda>c. printable c \<and> c \<noteq> CHR '','' \<and> c \<noteq> CHR '';'') (drop 6 m)"
    unfolding list_all_iff using restricted_name_char_safe by blast
  have "list_all (\<lambda>c. printable c \<and> c \<noteq> CHR '','' \<and> c \<noteq> CHR '';'') (take 6 m @ drop 6 m)"
    using a b by (simp only: list_all_append)
  then show "list_all (\<lambda>c. printable c \<and> c \<noteq> CHR '','' \<and> c \<noteq> CHR '';'') m" by simp
  have tk: "take 6 (map ascii_lower m) = ''image/''" using t by (simp add: take_map)
  have l: "length ''image/'' = 6" "length ''video/'' = 6" by simp_all
  show "startsWith (map ascii_lower m) ''image/''"
    unfolding startsWith_def l by (rule tk)
  show "\<not> startsWith (map ascii_lower m) ''video/''"
    unfolding startsWith_def l tk by simp
qed

lemma atob_example: "atob ''aGk='' = Inr ''hi''"
  by (simp add: atob_def strip_padding_def ascii_whitespace_def b64_value_def Let_def
        char_of_eq_iff)

lemma image_media_type_png: "image_media_type ''image/png''"
  by (simp add: image_media_type_def restricted_name_char_def ascii_lower_def)

lemma show_nat_example: "show_nat 1700000000000 = ''1700000000000''"
  by (simp add: show_nat.simps char_of_eq_iff)

lemma show_nat_later_example: "show_nat 1700000060000 = ''1700000060000''"
  by (simp add: show_nat.simps char_of_eq_iff)

lemma dataURLtoFile_png_example:
  "dataURLtoFile ''data:image/png;base64,aGk='' filename
     = Inr \<lparr>file_name = filename, file_type = ''image/png'', file_bytes = [104, 105]\<rparr>"
proof -
  have "dataURLtoFile (''data:'' @ ''image/png'' @ '';base64,'' @ ''aGk='') filename
     = Inr \<lparr>file_name = filename, file_type = map ascii_lower ''image/png'',
            file_bytes = map (\<lambda>c. of_nat (of_char c)) ''hi''\<rparr>"
    by (rule dataURLtoFile_data_url [OF _ _ atob_example]) (simp_all add: printable_def)
  then show ?thesis by (simp add: ascii_lower_def)
qed

lemma dataURLtoFile_no_comma: "dataURLtoFile ''no data here'' filename = Inl (Error ''Invalid data URL'')"
  by (simp add: dataURLtoFile_def)

section \<open>The handlers when nothing happens during the await\<close>

lemmas sync_handler_defs =
  handleApplyFilter_def handleApplyAdjustment_def handleGenerate3DView_def
  handleRemoveBackground_def handleRestorePhoto_def handleGroupRestorePhoto_def

text \<open>
  The run of a handler with both steps back to back, written out: the source text of the
  handler read from top to bottom.
\<close>

lemma applyGenerated_unfold:
  "applyGenerated noImage loadingMsg filePrefix failPrefix resetMessage s now result =
     (if currentImage s = None \<or> isCurrentItemVideo s then s\<lparr>error := Some noImage\<rparr>
      else
        (let s1 = s\<lparr>isLoading := True, loadingMessage := loadingMsg, error := None\<rparr>;
             s2 = (case result of
                     Inl err \<Rightarrow> s1\<lparr>error := Some (failPrefix @ errorMessage err)\<rparr>
                   | Inr url \<Rightarrow>
                       (case dataURLtoFile url (filePrefix @ show_nat now @ ''.png'') of
                          Inl err \<Rightarrow> s1\<lparr>error := Some (failPrefix @ errorMessage err)\<rparr>
                        | Inr newImageFile \<Rightarrow> addImageToHistory s s1 newImageFile));
             s3 = s2\<lparr>isLoading := False\<rparr>
         in if resetMessage then s3\<lparr>loadingMessage := defaultLoadingMessage\<rparr> else s3))"
  by (simp add: applyGenerated_def applyGenerated_start_def applyGenerated_settle_def Let_def)

lemma handleGenerate_unfold:
  "handleGenerate s now result =
     (if currentImage s = None \<or> isCurrentItemVideo s then
        s\<lparr>error := Some ''No image loaded to edit.''\<rparr>
      else if js_trim (prompt s) = [] then
        s\<lparr>error := Some ''Please enter a description for your edit.''\<rparr>
      else if editHotspot s = None then
        s\<lparr>error := Some ''Please click on the image to select an area to edit.''\<rparr>
      else
        (let s1 = s\<lparr>isLoading := True, loadingMessage := defaultLoadingMessage, error := None\<rparr>;
             s2 = (case result of
                     Inl err \<Rightarrow>
                       s1\<lparr>error := Some (''Failed to generate the image. '' @ errorMessage err)\<rparr>
                   | Inr editedImageUrl \<Rightarrow>
                       (case dataURLtoFile editedImageUrl (''edited-'' @ show_nat now @ ''.png'') of
                          Inl err \<Rightarrow>
                            s1\<lparr>error := Some (''Failed to generate the image. '' @ errorMessage err)\<rparr>
                        | Inr newImageFile \<Rightarrow>
                            (addImageToHistory s s1 newImageFile)
                              \<lparr>editHotspot := None, displayHotspot := None\<rparr>))
         in s2\<lparr>isLoading := False\<rparr>))"
  by (simp add: handleGenerate_def handleGenerate_start_def handleGenerate_settle_def Let_def)

lemma handleGenerateVideo_unfold:
  "handleGenerateVideo s p result =
     (if currentImage s = None \<or> isCurrentItemVideo s then
        s\<lparr>error := Some ''No image loaded to animate.''\<rparr>
      else if js_trim p = [] then
        s\<lparr>error := Some ''Please enter a description for the animation.''\<rparr>
      else
        (let s1 = s\<lparr>isLoading := True, error := None\<rparr>;
             s2 = (case result of
                     Inl err \<Rightarrow>
                       s1\<lparr>error := Some (''Failed to generate the video. '' @ errorMessage err)\<rparr>
                   | Inr videoFile \<Rightarrow> (addImageToHistory s s1 videoFile)\<lparr>animatePrompt := []\<rparr>)
         in s2\<lparr>isLoading := False, loadingMessage := defaultLoadingMessage\<rparr>))"
  by (simp add: handleGenerateVideo_def handleGenerateVideo_start_def
        handleGenerateVideo_settle_def Let_def)

lemma currentImage_addImageToHistory: "currentImage (addImageToHistory r s f) = Some f"
  by (simp add: currentImage_def addImageToHistory_def Let_def js_index_def nth_append)

lemma isCurrentItemVideo_current:
  "currentImage s = Some f \<Longrightarrow> isCurrentItemVideo s = startsWith (file_type f) ''video/''"
  by (simp add: isCurrentItemVideo_def)

lemma applyGenerated_success:
  assumes "currentImage s \<noteq> None" "\<not> isCurrentItemVideo s"
    and "dataURLtoFile url (filePrefix @ show_nat now @ ''.png'') = Inr f"
  shows "applyGenerated noImage loadingMsg filePrefix failPrefix resetMessage s now (Inr url)
           = (addImageToHistory s s f)
               \<lparr>isLoading := False,
                loadingMessage := (if resetMessage then defaultLoadingMessage else loadingMsg),
                error := None\<rparr>"
  using assms by (auto simp: applyGenerated_unfold Let_def addImageToHistory_def)

lemma applyGenerated_failure:
  "applyGenerated noImage loadingMsg filePrefix failPrefix resetMessage s now (Inl e)
     = (if currentImage s = None \<or> isCurrentItemVideo s then s\<lparr>error := Some noImage\<rparr>
        else s\<lparr>isLoading := False,
               loadingMessage := (if resetMessage then defaultLoadingMessage else loadingMsg),
               error := Some (failPrefix @ errorMessage e)\<rparr>)"
  by (simp add: applyGenerated_unfold Let_def)

lemma applyGenerated_hotspot:
  "editHotspot (applyGenerated noImage loadingMsg filePrefix failPrefix resetMessage s now result)
     = editHotspot s
   \<and> displayHotspot (applyGenerated noImage loadingMsg filePrefix failPrefix resetMessage s now result)
     = displayHotspot s"
  by (simp add: applyGenerated_unfold Let_def addImageToHistory_def split: sum.splits)

lemma handleGenerate_success:
  assumes "currentImage s \<noteq> None" "\<not> isCurrentItemVideo s"
    and "js_trim (prompt s) \<noteq> []" "editHotspot s \<noteq> None"
    and "dataURLtoFile url (''edited-'' @ show_nat now @ ''.png'') = Inr f"
  shows "handleGenerate s now (Inr url)
           = (addImageToHistory s s f)
               \<lparr>isLoading := False, loadingMessage := defaultLoadingMessage, error := None,
                editHotspot := None, displayHotspot := None\<rparr>"
  using assms by (auto simp: handleGenerate_unfold Let_def addImageToHistory_def)

lemma applyGenerated_current:
  assumes "currentImage s \<noteq> None" "\<not> isCurrentItemVideo s"
    and "dataURLtoFile url (filePrefix @ show_nat now @ ''.png'') = Inr f"
  shows "currentImage (applyGenerated noImage loadingMsg filePrefix failPrefix resetMessage s now
           (Inr url)) = Some f"
  unfolding applyGenerated_success [OF assms]
  using currentImage_addImageToHistory [of s s f]
  by (simp add: currentImage_def)

lemma handleGenerate_current:
  assumes "currentImage s \<noteq> None" "\<not> isCurrentItemVideo s"
    and "js_trim (prompt s) \<noteq> []" "editHotspot s \<noteq> None"
    and "dataURLtoFile url (''edited-'' @ show_nat now @ ''.png'') = Inr f"
  shows "currentImage (handleGenerate s now (Inr url)) = Some f"
  unfolding handleGenerate_success [OF assms]
  using currentImage_addImageToHistory [of s s f]
  by (simp add: currentImage_def)

lemma decoded_file_type: "file_type (decoded_file filename m bstr) = m"
  by (simp add: decoded_file_def)

lemma ready_state_current:
  "currentImage ready_state = Some image_A" "\<not> isCurrentItemVideo ready_state"
  "js_trim (prompt ready_state) \<noteq> []" "editHotspot ready_state = Some (10, 20)"
  "history ready_state = [image_A]" "historyIndex ready_state = 0"
  by (simp_all add: ready_state_def handleImageUpload_def currentImage_def js_index_def
        isCurrentItemVideo_def startsWith_def image_A_def js_trim_def js_whitespace_def)

lemma applyGenerated_decode_failure:
  "dataURLtoFile url (filePrefix @ show_nat now @ ''.png'') = Inl e \<Longrightarrow>
     applyGenerated noImage loadingMsg filePrefix failPrefix resetMessage s now (Inr url)
       = applyGenerated noImage loadingMsg filePrefix failPrefix resetMessage s now (Inl e)"
  by (simp add: applyGenerated_unfold Let_def)

lemma handleGenerate_decode_failure:
  "dataURLtoFile url (''edited-'' @ show_nat now @ ''.png'') = Inl e \<Longrightarrow>
     handleGenerate s now (Inr url) = handleGenerate s now (Inl e)"
  by (simp add: handleGenerate_unfold Let_def)

section \<open>Properties of the history store\<close>

lemma addImageToHistory_history:
  "- 1 \<le> historyIndex r \<Longrightarrow>
     history (addImageToHistory r s f) = take (nat (historyIndex r + 1)) (history r) @ [f]"
  by (simp add: addImageToHistory_def Let_def js_slice0_def)

lemma addImageToHistory_index:
  "historyIndex (addImageToHistory r s f) = int (length (history (addImageToHistory r s f))) - 1"
  by (simp add: addImageToHistory_def Let_def)

lemma undo_iter_history: "history ((handleUndo ^^ n) s) = history s"
  by (induction n) (simp_all add: handleUndo_def)

lemma undo_iter_index: "0 \<le> historyIndex s \<Longrightarrow> 0 \<le> historyIndex ((handleUndo ^^ n) s)"
  by (induction n) (auto simp: handleUndo_def canUndo_def)

lemma history_inv_upload: "history_inv f (handleImageUpload s f)"
  by (simp add: history_inv_def handleImageUpload_def originalImage_def js_index_def)

lemma history_inv_append:
  assumes r: "history_inv f r"
  shows "history_inv f (addImageToHistory r s g)"
proof -
  from r have h: "history (addImageToHistory r s g) = take (nat (historyIndex r + 1)) (history r) @ [g]"
    by (simp add: addImageToHistory_history history_inv_def)
  from r have "take (nat (historyIndex r + 1)) (history r) \<noteq> []"
    by (auto simp: history_inv_def)
  with r h show ?thesis
    by (auto simp: history_inv_def originalImage_def js_index_def addImageToHistory_index
          nth_append)
qed

lemma history_inv_undo: "history_inv f s \<Longrightarrow> history_inv f (handleUndo s)"
  by (auto simp: history_inv_def originalImage_def handleUndo_def canUndo_def)

lemma history_inv_redo: "history_inv f s \<Longrightarrow> history_inv f (handleRedo s)"
  by (auto simp: history_inv_def originalImage_def handleRedo_def canRedo_def)

text \<open>
  The invariant is kept by every run whose appends were all issued from renders of the
  same upload, late answers included: an append rebuilds the entries from its own render,
  and that render had the upload first.
\<close>

lemma history_inv_run:
  "history_inv f s \<Longrightarrow> list_all (history_inv f) (append_renders ops) \<Longrightarrow>
     history_inv f (run_history s ops)"
  unfolding run_history_def
proof (induction ops arbitrary: s)
  case Nil
  then show ?case by simp
next
  case (Cons x ops)
  show ?case
  proof (cases x)
    case (Append r g)
    with Cons.prems have "history_inv f r" "list_all (history_inv f) (append_renders ops)"
      by simp_all
    with Cons.IH [of "addImageToHistory r s g"] Append show ?thesis
      by (simp add: history_inv_append)
  next
    case Undo
    with Cons.prems Cons.IH [of "handleUndo s"] show ?thesis
      by (simp add: history_inv_undo)
  next
    case Redo
    with Cons.prems Cons.IH [of "handleRedo s"] show ?thesis
      by (simp add: history_inv_redo)
  qed
qed

lemma history_inv_within_one_upload:
  assumes "list_all (history_inv f) (append_renders ops)"
  shows "0 \<le> historyIndex (run_history (handleImageUpload s f) ops)
   \<and> historyIndex (run_history (handleImageUpload s f) ops)
       \<le> int (length (history (run_history (handleImageUpload s f) ops))) - 1
   \<and> originalImage (run_history (handleImageUpload s f) ops) = Some f"
proof -
  have "history_inv f (run_history (handleImageUpload s f) ops)"
    using history_inv_upload assms by (rule history_inv_run)
  then show ?thesis
    by (simp add: history_inv_def)
qed


text \<open>
  When the append is issued from the current render, as the synchronous crop does and as
  an async operation does when nothing was clicked while it was loading: after any number
  \<open>n\<close> of undo calls, the entries up to the cursor are kept, the new one follows, the
  cursor is on it and redo is impossible.
\<close>

lemma append_from_current_render:
  assumes "0 \<le> historyIndex s"
  shows "history (addImageToHistory ((handleUndo ^^ n) s) ((handleUndo ^^ n) s) f)
           = take (nat (historyIndex ((handleUndo ^^ n) s) + 1)) (history s) @ [f]
         \<and> \<not> canRedo (addImageToHistory ((handleUndo ^^ n) s) ((handleUndo ^^ n) s) f)
         \<and> handleRedo (addImageToHistory ((handleUndo ^^ n) s) ((handleUndo ^^ n) s) f)
           = addImageToHistory ((handleUndo ^^ n) s) ((handleUndo ^^ n) s) f"
proof -
  let ?u = "(handleUndo ^^ n) s"
  have "0 \<le> historyIndex ?u" using assms by (rule undo_iter_index)
  then have h: "history (addImageToHistory ?u ?u f) = take (nat (historyIndex ?u + 1)) (history s) @ [f]"
    by (simp add: addImageToHistory_history undo_iter_history)
  have i: "historyIndex (addImageToHistory ?u ?u f)
             = int (length (history (addImageToHistory ?u ?u f))) - 1"
    by (rule addImageToHistory_index)
  have r: "\<not> canRedo (addImageToHistory ?u ?u f)"
    using i by (simp add: canRedo_def)
  then have "handleRedo (addImageToHistory ?u ?u f) = addImageToHistory ?u ?u f"
    by (simp add: handleRedo_def)
  with h r show ?thesis by blast
qed

text \<open>
  After any append, late or not, the cursor is on the last entry and redo is impossible.
\<close>

lemma append_ends_redo:
  "historyIndex (addImageToHistory r s f) = int (length (history (addImageToHistory r s f))) - 1
   \<and> \<not> canRedo (addImageToHistory r s f)
   \<and> handleRedo (addImageToHistory r s f) = addImageToHistory r s f"
  by (simp add: addImageToHistory_index canRedo_def handleRedo_def)

lemma session_A_facts:
  "history session_A = [image_A]" "historyIndex session_A = 0"
  "currentImage session_A = Some image_A" "\<not> isCurrentItemVideo session_A"
  by (simp_all add: session_A_def handleImageUpload_def currentImage_def js_index_def
        isCurrentItemVideo_def startsWith_def image_A_def)

lemma filter_answer_file:
  "dataURLtoFile ''data:image/png;base64,aGk='' (''filtered-'' @ show_nat 1700000000000 @ ''.png'')
     = Inr filtered_file"
  "dataURLtoFile ''data:image/png;base64,aGk='' (''filtered-'' @ show_nat 1700000060000 @ ''.png'')
     = Inr filtered_again_file"
  by (simp_all add: dataURLtoFile_png_example show_nat_example show_nat_later_example
        filtered_file_def filtered_again_file_def)

text \<open>
  Claim C1 does not hold of the component. The buttons Undo, Redo and Upload New stay
  enabled while an operation is loading, and the answer of the operation appends with the
  \<^verbatim>\<open>addImageToHistory\<close> of the render in which the operation was started. Here a filter
  is started on the upload \<open>image_A\<close> (the request is sent and the session is loading);
  the user then clicks Upload New and uploads \<open>image_X\<close>, which makes a history of the
  single entry \<open>image_X\<close>; the late answer then writes the entries \<open>image_A\<close> and the
  filtered file over it. The first entry has changed from \<open>image_X\<close> to \<open>image_A\<close>
  by an append, with no upload.
\<close>

theorem late_answer_replaces_first_entry:
  "snd (handleApplyFilter_start session_A)
   \<and> isLoading session_A_loading
   \<and> history session_X = [image_X]
   \<and> historyIndex session_X = 0
   \<and> originalImage session_X = Some image_X
   \<and> session_X_answered
       = (history_step session_X (Append session_A filtered_file))\<lparr>isLoading := False\<rparr>
   \<and> history session_X_answered = [image_A, filtered_file]
   \<and> historyIndex session_X_answered = 1
   \<and> originalImage session_X_answered = Some image_A"
proof -
  have st: "handleApplyFilter_start session_A
      = (session_A\<lparr>isLoading := True, loadingMessage := defaultLoadingMessage, error := None\<rparr>,
         True)"
    by (simp add: handleApplyFilter_start_def applyGenerated_start_def session_A_facts)
  have x: "history session_X = [image_X]" "historyIndex session_X = 0"
    by (simp_all add: session_X_def handleImageUpload_def)
  have a: "session_X_answered = (addImageToHistory session_A session_X filtered_file)\<lparr>isLoading := False\<rparr>"
    by (simp add: session_X_answered_def handleApplyFilter_settle_def applyGenerated_settle_def
          dataURLtoFile_png_example show_nat_example filtered_file_def Let_def)
  have h: "history session_X_answered = [image_A, filtered_file]"
    "historyIndex session_X_answered = 1"
    unfolding a by (simp_all add: addImageToHistory_def Let_def js_slice0_def session_A_facts)
  show ?thesis
    using st x a h
    by (simp add: session_A_loading_def originalImage_def js_index_def)
qed

text \<open>
  Claim C2 does not hold of the component, for the same reason. Here a second filter is
  started with the cursor on the second of two entries; the user clicks Undo while it is
  loading, which puts the cursor on the first entry; the late answer then appends to the
  two entries of the render it was started in. The entry beyond the cursor at the time of
  the append is still there, where the claim has it discarded and the new file second.
\<close>

theorem late_answer_keeps_redo_branch:
  "history session_AF = [image_A, filtered_file]
   \<and> historyIndex session_AF = 1
   \<and> snd (handleApplyFilter_start session_AF)
   \<and> history session_AF_undone = [image_A, filtered_file]
   \<and> historyIndex session_AF_undone = 0
   \<and> history session_AF_answered = [image_A, filtered_file, filtered_again_file]
   \<and> historyIndex session_AF_answered = 2
   \<and> history session_AF_answered
       \<noteq> take (nat (historyIndex session_AF_undone + 1)) (history session_AF_undone)
           @ [filtered_again_file]"
proof -
  have f: "session_AF = (addImageToHistory session_A session_A filtered_file)
             \<lparr>isLoading := False, loadingMessage := defaultLoadingMessage, error := None\<rparr>"
    unfolding session_AF_def handleApplyFilter_def
    using applyGenerated_success [OF _ _ filter_answer_file(1), of session_A]
    by (simp add: session_A_facts)
  have h: "history session_AF = [image_A, filtered_file]" "historyIndex session_AF = 1"
    unfolding f by (simp_all add: addImageToHistory_def Let_def js_slice0_def session_A_facts)
  have c: "currentImage session_AF = Some filtered_file" "\<not> isCurrentItemVideo session_AF"
    using h by (simp_all add: currentImage_def isCurrentItemVideo_def js_index_def
        filtered_file_def startsWith_def)
  have st: "handleApplyFilter_start session_AF
      = (session_AF\<lparr>isLoading := True, loadingMessage := defaultLoadingMessage, error := None\<rparr>,
         True)"
    by (simp add: handleApplyFilter_start_def applyGenerated_start_def c)
  have u: "history session_AF_undone = [image_A, filtered_file]"
    "historyIndex session_AF_undone = 0"
    using h by (simp_all add: session_AF_undone_def session_AF_loading_def st handleUndo_def
        canUndo_def)
  have a: "session_AF_answered
      = (addImageToHistory session_AF session_AF_undone filtered_again_file)\<lparr>isLoading := False\<rparr>"
    by (simp add: session_AF_answered_def handleApplyFilter_settle_def applyGenerated_settle_def
          dataURLtoFile_png_example show_nat_later_example filtered_again_file_def Let_def)
  have l: "history session_AF_answered = [image_A, filtered_file, filtered_again_file]"
    "historyIndex session_AF_answered = 2"
    unfolding a by (simp_all add: addImageToHistory_def Let_def js_slice0_def h)
  show ?thesis
    using h st u l by simp
qed

text \<open>
  Claim C6, as the code has it. Undo with the cursor at \<open>0\<close> (or below) and redo with the
  cursor on the last entry (or beyond) return the state they were given: entries, cursor,
  and the error cell too. Nothing is reported.
\<close>

theorem undo_redo_at_the_ends:
  assumes "historyIndex s \<le> 0" and "int (length (history t)) - 1 \<le> historyIndex t"
  shows "handleUndo s = s \<and> handleRedo t = t"
  using assms by (simp add: handleUndo_def handleRedo_def canUndo_def canRedo_def)

theorem undo_redo_at_the_ends_witness:
  "historyIndex (handleImageUpload initial_state image_A) \<le> 0
   \<and> int (length (history edited_state)) - 1 \<le> historyIndex edited_state
   \<and> handleUndo (handleImageUpload initial_state image_A) = handleImageUpload initial_state image_A
   \<and> handleRedo edited_state = edited_state"
proof -
  have a: "historyIndex (handleImageUpload initial_state image_A) \<le> 0"
    by (simp add: handleImageUpload_def)
  have b: "int (length (history edited_state)) - 1 \<le> historyIndex edited_state"
    by (simp add: edited_state_def)
  show ?thesis using a b undo_redo_at_the_ends [OF a b] by simp
qed

text \<open>
  Claim C6 as stated asks for a reported precondition failure. Right after an upload the
  cursor is \<open>0\<close> and no error is shown; undo leaves the error cell empty.
\<close>

theorem undo_reports_nothing_counterexample:
  "historyIndex (handleImageUpload initial_state image_A) = 0
   \<and> error (handleImageUpload initial_state image_A) = None
   \<and> error (handleUndo (handleImageUpload initial_state image_A)) = None"
  by (simp add: handleImageUpload_def handleUndo_def canUndo_def)

text \<open>
  Claim C10. On a non-empty history, reset puts the cursor on \<open>0\<close>, keeps the entries,
  and clears both hotspots and the error.
\<close>

theorem reset_clears:
  assumes "history s \<noteq> []"
  shows "historyIndex (handleReset s) = 0 \<and> history (handleReset s) = history s
         \<and> editHotspot (handleReset s) = None \<and> displayHotspot (handleReset s) = None
         \<and> error (handleReset s) = None"
  using assms by (simp add: handleReset_def)

theorem reset_clears_witness:
  "history edited_state \<noteq> []
   \<and> editHotspot edited_state = Some (10, 20) \<and> displayHotspot edited_state = Some (5, 10)
   \<and> error edited_state \<noteq> None
   \<and> historyIndex (handleReset edited_state) = 0
   \<and> history (handleReset edited_state) = [image_A, image_B, image_C]
   \<and> editHotspot (handleReset edited_state) = None
   \<and> displayHotspot (handleReset edited_state) = None
   \<and> error (handleReset edited_state) = None"
proof -
  have a: "history edited_state \<noteq> []" by (simp add: edited_state_def)
  show ?thesis using a reset_clears [OF a] by (simp add: edited_state_def)
qed

text \<open>
  Claim C8, as the code has it. An upload replaces the history by the one file, puts the
  cursor on \<open>0\<close> and clears both hotspots and the error. The upload surface hands over the
  first file of a selection; with no selection or an empty one it returns the state it
  was given. No input is refused.
\<close>

theorem upload_replaces_history:
  "history (handleImageUpload s f) = [f]
   \<and> historyIndex (handleImageUpload s f) = 0
   \<and> editHotspot (handleImageUpload s f) = None
   \<and> displayHotspot (handleImageUpload s f) = None
   \<and> error (handleImageUpload s f) = None
   \<and> handleFileSelect s (Some (f # fs)) = handleImageUpload s f
   \<and> handleFileSelect s None = s
   \<and> handleFileSelect s (Some []) = s"
  by (simp add: handleImageUpload_def handleFileSelect_def js_index_def)

text \<open>
  Claim C8 as stated asks for an \<open>InvalidInput\<close> failure on a null or empty artifact. A
  file of zero bytes is accepted as the new history and no error is set; a null selection
  changes nothing and sets no error.
\<close>

theorem upload_invalid_input_counterexample:
  "file_bytes empty_file = []
   \<and> history (handleFileSelect initial_state (Some [empty_file])) = [empty_file]
   \<and> error (handleFileSelect initial_state (Some [empty_file])) = None
   \<and> handleFileSelect initial_state None = initial_state
   \<and> error (handleFileSelect initial_state None) = None"
  by (simp add: handleImageUpload_def handleFileSelect_def js_index_def empty_file_def
        initial_state_def)

section \<open>Properties of the response classification\<close>

lemma find_first_inline:
  "list_all (\<lambda>q. part_inlineData q = None) before \<Longrightarrow> part_inlineData p = Some i \<Longrightarrow>
     find (\<lambda>p. part_inlineData p \<noteq> None) (before @ p # after) = Some p"
  by (induction before) simp_all

lemma find_no_inline:
  "list_all (\<lambda>q. part_inlineData q = None) ps \<Longrightarrow> find (\<lambda>p. part_inlineData p \<noteq> None) ps = None"
  by (induction ps) simp_all

lemma find_no_inline_ex:
  "list_all (\<lambda>q. part_inlineData q = None) ps \<Longrightarrow>
     find (\<lambda>p. \<exists>y. part_inlineData p = Some y) ps = None"
  by (induction ps) simp_all

lemmas response_simps =
  blockReason_def blockReasonMessage_def firstCandidate_def imagePartFromResponse_def
  finishReason_def textFeedback_def truthy_def js_str_def js_index_def

lemma not_blocked:
  "resp_promptFeedback r = None
     \<or> (\<exists>pf. resp_promptFeedback r = Some pf
            \<and> (pf_blockReason pf = None \<or> pf_blockReason pf = Some [])) \<Longrightarrow>
   \<not> truthy (blockReason r)"
  by (auto simp: response_simps)

lemma handleApiResponse_first_inline:
  assumes "resp_promptFeedback r = None
     \<or> (\<exists>pf. resp_promptFeedback r = Some pf
            \<and> (pf_blockReason pf = None \<or> pf_blockReason pf = Some []))"
    and "resp_candidates r = Some (c # cs)" "cand_parts c = Some (before @ p # after)"
    and "list_all (\<lambda>q. part_inlineData q = None) before"
    and "part_inlineData p = Some \<lparr>inline_mimeType = Some m, inline_data = Some d\<rparr>"
  shows "handleApiResponse r ctx = Inr (''data:'' @ m @ '';base64,'' @ d)"
proof -
  have "imagePartFromResponse r = Some \<lparr>inline_mimeType = Some m, inline_data = Some d\<rparr>"
    using assms(2,3,5) find_first_inline [OF assms(4,5), of after]
    by (simp add: imagePartFromResponse_def firstCandidate_def js_index_def)
  with not_blocked [OF assms(1)] show ?thesis
    by (simp add: handleApiResponse_def js_str_def)
qed

text \<open>
  Claim C4, read on the fields of the response. (a) When the prompt feedback holds a block
  reason \<open>b\<close> that is not empty, the result is the refusal that names \<open>b\<close> and ends
  with the block message if there is one, whatever else the response holds. When there is
  no such block reason: (b) if the parts of the first candidate hold an inline payload,
  the image the service sends, \<open>p\<close> being the first part that has one, the result is the
  data URL made of the type and the data of that payload; (c) if they hold none and the
  first candidate has a finish reason \<open>fr\<close> that is neither empty nor \<open>STOP\<close>, the
  result is the failure that names \<open>fr\<close> and adds the note on safety settings; (d) if
  there is no first candidate, or it holds no inline payload and its finish reason is
  absent, empty or \<open>STOP\<close>, the result is the failure that quotes the trimmed text of the
  response, or ends with the general hint when the text is absent or blank.
\<close>

theorem classification_priority:
  "(resp_promptFeedback r = Some pf \<and> pf_blockReason pf = Some b \<and> b \<noteq> [] \<longrightarrow>
      handleApiResponse r ctx =
        Inl (Error (''Request was blocked. Reason: '' @ b @ ''. ''
                    @ (case pf_blockReasonMessage pf of None \<Rightarrow> [] | Some msg \<Rightarrow> msg))))
   \<and> ((resp_promptFeedback r = None
         \<or> (\<exists>pf. resp_promptFeedback r = Some pf
                \<and> (pf_blockReason pf = None \<or> pf_blockReason pf = Some []))) \<longrightarrow>
        (resp_candidates r = Some (c # cs) \<and> cand_parts c = Some (before @ p # after)
           \<and> list_all (\<lambda>q. part_inlineData q = None) before \<and> part_inlineData p = Some i \<longrightarrow>
         handleApiResponse r ctx =
           Inr (''data:'' @ (case inline_mimeType i of None \<Rightarrow> ''undefined'' | Some m \<Rightarrow> m)
                @ '';base64,'' @ (case inline_data i of None \<Rightarrow> ''undefined'' | Some d \<Rightarrow> d)))
      \<and> (resp_candidates r = Some (c # cs)
           \<and> (cand_parts c = None
                \<or> (\<exists>ps. cand_parts c = Some ps \<and> list_all (\<lambda>q. part_inlineData q = None) ps))
           \<and> cand_finishReason c = Some fr \<and> fr \<noteq> [] \<and> fr \<noteq> ''STOP'' \<longrightarrow>
         handleApiResponse r ctx =
           Inl (Error (''Image generation for '' @ ctx @ '' stopped unexpectedly. Reason: ''
                       @ fr @ ''. This often relates to safety settings.'')))
      \<and> (resp_candidates r = None \<or> resp_candidates r = Some []
           \<or> (resp_candidates r = Some (c # cs)
                \<and> (cand_parts c = None
                     \<or> (\<exists>ps. cand_parts c = Some ps
                            \<and> list_all (\<lambda>q. part_inlineData q = None) ps))
                \<and> (cand_finishReason c = None \<or> cand_finishReason c = Some []
                     \<or> cand_finishReason c = Some ''STOP'')) \<longrightarrow>
         handleApiResponse r ctx =
           Inl (Error (''The AI model did not return an image for the '' @ ctx @ ''. ''
                       @ (case resp_text r of
                            None \<Rightarrow> no_image_hint
                          | Some t \<Rightarrow>
                              if js_trim t = [] then no_image_hint
                              else ''The model responded with text: '' @ [CHR 0x22] @ js_trim t
                                   @ [CHR 0x22])))))"
proof -
  have a: "handleApiResponse r ctx =
        Inl (Error (''Request was blocked. Reason: '' @ b @ ''. ''
                    @ (case pf_blockReasonMessage pf of None \<Rightarrow> [] | Some msg \<Rightarrow> msg)))"
    if "resp_promptFeedback r = Some pf" "pf_blockReason pf = Some b" "b \<noteq> []"
    using that by (simp add: handleApiResponse_def response_simps split: option.splits)
  have nb: "\<not> truthy (blockReason r)"
    if "resp_promptFeedback r = None
         \<or> (\<exists>pf. resp_promptFeedback r = Some pf
                \<and> (pf_blockReason pf = None \<or> pf_blockReason pf = Some []))"
    using that by (auto simp: response_simps)
  have b: "handleApiResponse r ctx =
           Inr (''data:'' @ (case inline_mimeType i of None \<Rightarrow> ''undefined'' | Some m \<Rightarrow> m)
                @ '';base64,'' @ (case inline_data i of None \<Rightarrow> ''undefined'' | Some d \<Rightarrow> d))"
    if "\<not> truthy (blockReason r)" "resp_candidates r = Some (c # cs)"
      "cand_parts c = Some (before @ p # after)"
      "list_all (\<lambda>q. part_inlineData q = None) before" "part_inlineData p = Some i"
  proof -
    have "imagePartFromResponse r = Some i"
      using that(2,3,5) find_first_inline [OF that(4,5), of after]
      by (simp add: imagePartFromResponse_def firstCandidate_def js_index_def)
    with that(1) show ?thesis
      by (simp add: handleApiResponse_def js_str_def)
  qed
  have np: "imagePartFromResponse r = None"
    if "resp_candidates r = Some (c # cs)"
      "cand_parts c = None
         \<or> (\<exists>ps. cand_parts c = Some ps \<and> list_all (\<lambda>q. part_inlineData q = None) ps)"
    using that by (auto simp: imagePartFromResponse_def firstCandidate_def js_index_def
        find_no_inline find_no_inline_ex)
  have nc: "imagePartFromResponse r = None \<and> finishReason r = None"
    if "resp_candidates r = None \<or> resp_candidates r = Some []"
    using that by (auto simp: imagePartFromResponse_def finishReason_def firstCandidate_def
        js_index_def)
  have fr: "finishReason r = cand_finishReason c" if "resp_candidates r = Some (c # cs)"
    using that by (simp add: finishReason_def firstCandidate_def js_index_def)
  have c: "handleApiResponse r ctx =
           Inl (Error (''Image generation for '' @ ctx @ '' stopped unexpectedly. Reason: ''
                       @ fr @ ''. This often relates to safety settings.''))"
    if "\<not> truthy (blockReason r)" "imagePartFromResponse r = None"
      "finishReason r = Some fr" "fr \<noteq> []" "fr \<noteq> ''STOP''"
    using that by (simp add: handleApiResponse_def truthy_def js_str_def)
  have d: "handleApiResponse r ctx =
           Inl (Error (''The AI model did not return an image for the '' @ ctx @ ''. ''
                       @ (case resp_text r of
                            None \<Rightarrow> no_image_hint
                          | Some t \<Rightarrow>
                              if js_trim t = [] then no_image_hint
                              else ''The model responded with text: '' @ [CHR 0x22] @ js_trim t
                                   @ [CHR 0x22])))"
    if "\<not> truthy (blockReason r)" "imagePartFromResponse r = None"
      "finishReason r = None \<or> finishReason r = Some [] \<or> finishReason r = Some ''STOP''"
    using that
    by (auto simp: handleApiResponse_def truthy_def js_str_def textFeedback_def no_image_hint_def
          split: option.splits)
  show ?thesis
  proof (intro conjI impI)
    assume "resp_promptFeedback r = Some pf \<and> pf_blockReason pf = Some b \<and> b \<noteq> []"
    then show "handleApiResponse r ctx =
        Inl (Error (''Request was blocked. Reason: '' @ b @ ''. ''
                    @ (case pf_blockReasonMessage pf of None \<Rightarrow> [] | Some msg \<Rightarrow> msg)))"
      using a by simp
  next
    assume u: "resp_promptFeedback r = None
         \<or> (\<exists>pf. resp_promptFeedback r = Some pf
                \<and> (pf_blockReason pf = None \<or> pf_blockReason pf = Some []))"
      and h: "resp_candidates r = Some (c # cs) \<and> cand_parts c = Some (before @ p # after)
           \<and> list_all (\<lambda>q. part_inlineData q = None) before \<and> part_inlineData p = Some i"
    show "handleApiResponse r ctx =
           Inr (''data:'' @ (case inline_mimeType i of None \<Rightarrow> ''undefined'' | Some m \<Rightarrow> m)
                @ '';base64,'' @ (case inline_data i of None \<Rightarrow> ''undefined'' | Some d \<Rightarrow> d))"
      using b [OF nb [OF u]] h by simp
  next
    assume u: "resp_promptFeedback r = None
         \<or> (\<exists>pf. resp_promptFeedback r = Some pf
                \<and> (pf_blockReason pf = None \<or> pf_blockReason pf = Some []))"
      and h: "resp_candidates r = Some (c # cs)
           \<and> (cand_parts c = None
                \<or> (\<exists>ps. cand_parts c = Some ps \<and> list_all (\<lambda>q. part_inlineData q = None) ps))
           \<and> cand_finishReason c = Some fr \<and> fr \<noteq> [] \<and> fr \<noteq> ''STOP''"
    have "imagePartFromResponse r = None" using np h by simp
    moreover have "finishReason r = Some fr" using fr h by simp
    ultimately show "handleApiResponse r ctx =
           Inl (Error (''Image generation for '' @ ctx @ '' stopped unexpectedly. Reason: ''
                       @ fr @ ''. This often relates to safety settings.''))"
      using c [OF nb [OF u]] h by simp
  next
    assume u: "resp_promptFeedback r = None
         \<or> (\<exists>pf. resp_promptFeedback r = Some pf
                \<and> (pf_blockReason pf = None \<or> pf_blockReason pf = Some []))"
      and h: "resp_candidates r = None \<or> resp_candidates r = Some []
           \<or> (resp_candidates r = Some (c # cs)
                \<and> (cand_parts c = None
                     \<or> (\<exists>ps. cand_parts c = Some ps
                            \<and> list_all (\<lambda>q. part_inlineData q = None) ps))
                \<and> (cand_finishReason c = None \<or> cand_finishReason c = Some []
                     \<or> cand_finishReason c = Some ''STOP''))"
    have "imagePartFromResponse r = None
          \<and> (finishReason r = None \<or> finishReason r = Some [] \<or> finishReason r = Some ''STOP'')"
    proof (cases "resp_candidates r = None \<or> resp_candidates r = Some []")
      case True
      then show ?thesis using nc by simp
    next
      case False
      with h have k: "resp_candidates r = Some (c # cs)"
        "cand_parts c = None
           \<or> (\<exists>ps. cand_parts c = Some ps \<and> list_all (\<lambda>q. part_inlineData q = None) ps)"
        "cand_finishReason c = None \<or> cand_finishReason c = Some []
           \<or> cand_finishReason c = Some ''STOP''"
        by auto
      show ?thesis using np [OF k(1,2)] fr [OF k(1)] k(3) by simp
    qed
    then show "handleApiResponse r ctx =
           Inl (Error (''The AI model did not return an image for the '' @ ctx @ ''. ''
                       @ (case resp_text r of
                            None \<Rightarrow> no_image_hint
                          | Some t \<Rightarrow>
                              if js_trim t = [] then no_image_hint
                              else ''The model responded with text: '' @ [CHR 0x22] @ js_trim t
                                   @ [CHR 0x22])))"
      using d [OF nb [OF u]] by simp
  qed
qed

text \<open>
  The classification on six responses: a blocked one that also holds an image and has no
  block message, a blocked one with a block message, one whose first candidate holds two
  images after a text part and a finish reason that is not \<open>STOP\<close>, one with such a
  finish reason and no image, one with text only, and one with nothing.
\<close>

theorem classification_priority_witness:
  "resp_promptFeedback blocked_response
     = Some \<lparr>pf_blockReason = Some ''SAFETY'', pf_blockReasonMessage = None\<rparr>
   \<and> handleApiResponse blocked_response ''filter'' =
       Inl (Error ''Request was blocked. Reason: SAFETY. '')
   \<and> resp_promptFeedback blocked_with_message_response
       = Some \<lparr>pf_blockReason = Some ''OTHER'',
               pf_blockReasonMessage = Some ''The prompt was flagged.''\<rparr>
   \<and> handleApiResponse blocked_with_message_response ''edit'' =
       Inl (Error ''Request was blocked. Reason: OTHER. The prompt was flagged.'')
   \<and> resp_promptFeedback image_response = None
   \<and> resp_candidates image_response
       = Some [\<lparr>cand_parts = Some ([text_part] @ image_part # [other_image_part]),
                cand_finishReason = Some ''SAFETY''\<rparr>]
   \<and> part_inlineData text_part = None
   \<and> part_inlineData image_part
       = Some \<lparr>inline_mimeType = Some ''image/png'', inline_data = Some ''aGk=''\<rparr>
   \<and> handleApiResponse image_response ''filter'' = Inr ''data:image/png;base64,aGk=''
   \<and> resp_promptFeedback stopped_response
       = Some \<lparr>pf_blockReason = None, pf_blockReasonMessage = None\<rparr>
   \<and> resp_candidates stopped_response
       = Some [\<lparr>cand_parts = Some [text_part], cand_finishReason = Some ''SAFETY''\<rparr>]
   \<and> handleApiResponse stopped_response ''filter'' =
       Inl (Error ''Image generation for filter stopped unexpectedly. Reason: SAFETY. This often relates to safety settings.'')
   \<and> resp_promptFeedback text_response = None
   \<and> resp_candidates text_response
       = Some [\<lparr>cand_parts = Some [text_part], cand_finishReason = Some ''STOP''\<rparr>]
   \<and> resp_text text_response = Some '' I cannot do that. ''
   \<and> handleApiResponse text_response ''filter'' =
       Inl (Error (''The AI model did not return an image for the filter. The model responded with text: ''
                   @ [CHR 0x22] @ ''I cannot do that.'' @ [CHR 0x22]))
   \<and> resp_promptFeedback empty_response = None \<and> resp_candidates empty_response = None
   \<and> resp_text empty_response = None
   \<and> handleApiResponse empty_response ''filter'' =
       Inl (Error ''The AI model did not return an image for the filter. This can happen due to safety filters or if the request is too complex. Please try rephrasing your prompt to be more direct.'')"
  using
    classification_priority [where r = blocked_response and ctx = "''filter''"
      and pf = "\<lparr>pf_blockReason = Some ''SAFETY'', pf_blockReasonMessage = None\<rparr>"
      and b = "''SAFETY''", THEN conjunct1]
    classification_priority [where r = blocked_with_message_response and ctx = "''edit''"
      and pf = "\<lparr>pf_blockReason = Some ''OTHER'',
                 pf_blockReasonMessage = Some ''The prompt was flagged.''\<rparr>"
      and b = "''OTHER''", THEN conjunct1]
    classification_priority [where r = image_response and ctx = "''filter''"
      and c = "\<lparr>cand_parts = Some [text_part, image_part, other_image_part],
                cand_finishReason = Some ''SAFETY''\<rparr>"
      and cs = "[]" and before = "[text_part]" and p = image_part
      and after = "[other_image_part]"
      and i = "\<lparr>inline_mimeType = Some ''image/png'', inline_data = Some ''aGk=''\<rparr>",
      THEN conjunct2, THEN mp, THEN conjunct1]
    classification_priority [where r = stopped_response and ctx = "''filter''"
      and c = "\<lparr>cand_parts = Some [text_part], cand_finishReason = Some ''SAFETY''\<rparr>"
      and cs = "[]" and fr = "''SAFETY''", THEN conjunct2, THEN mp, THEN conjunct2,
      THEN conjunct1]
    classification_priority [where r = text_response and ctx = "''filter''"
      and c = "\<lparr>cand_parts = Some [text_part], cand_finishReason = Some ''STOP''\<rparr>"
      and cs = "[]", THEN conjunct2, THEN mp, THEN conjunct2, THEN conjunct2]
    classification_priority [where r = empty_response and ctx = "''filter''"
      and c = "\<lparr>cand_parts = None, cand_finishReason = None\<rparr>"
      and cs = "[]", THEN conjunct2, THEN mp, THEN conjunct2, THEN conjunct2]
  by (auto simp: blocked_response_def blocked_with_message_response_def image_response_def
        stopped_response_def text_response_def empty_response_def text_part_def
        image_part_def other_image_part_def no_image_hint_def js_trim_def js_whitespace_def)

section \<open>Properties of the video polling loop\<close>

lemma handle_after_Suc_Inr:
  "handle_after getOp operation a = Inr h \<Longrightarrow> handle_after getOp operation (Suc a) = getOp a h"
  by simp

lemma poll_from:
  "k - a = n \<Longrightarrow> a \<le> k \<Longrightarrow> k \<le> maxAttempts \<Longrightarrow> handle_after getOp operation a = Inr h \<Longrightarrow>
   (\<forall>j. a \<le> j \<and> j < k \<longrightarrow> pending_after getOp operation j) \<Longrightarrow>
   handle_after getOp operation k = Inr held \<Longrightarrow> op_done held \<or> k = maxAttempts \<Longrightarrow>
   poll getOp h a log = (log @ concat (map poll_round [a..<k]), Inr (held, k))"
proof (induction n arbitrary: a h log)
  case 0
  then have "a = k" by simp
  with 0 have "h = held" by simp
  with 0 \<open>a = k\<close> show ?case by (auto simp: poll.simps [of getOp held k log])
next
  case (Suc n)
  then have lt: "a < k" by simp
  with Suc.prems have pa: "pending_after getOp operation a" by simp
  with Suc.prems(4) have nd: "\<not> op_done h" by (simp add: pending_after_def)
  from lt Suc.prems(3) have am: "a < maxAttempts" by simp
  have "\<exists>h'. getOp a h = Inr h'"
  proof (cases "Suc a = k")
    case True
    with Suc.prems(6) have "handle_after getOp operation (Suc a) = Inr held" by simp
    then show ?thesis unfolding handle_after_Suc_Inr [OF Suc.prems(4)] by blast
  next
    case False
    with lt have "Suc a < k" by simp
    with Suc.prems(5) have "pending_after getOp operation (Suc a)" by simp
    then show ?thesis
      using handle_after_Suc_Inr [OF Suc.prems(4)]
      by (cases "getOp a h") (simp_all add: pending_after_def)
  qed
  then obtain h' where g: "getOp a h = Inr h'" by blast
  then have hs: "handle_after getOp operation (Suc a) = Inr h'"
    using handle_after_Suc_Inr [OF Suc.prems(4)] by simp
  have step: "poll getOp h a log = poll getOp h' (a + 1) (log @ poll_round a)"
    using nd am g by (simp add: poll.simps [of getOp h a log])
  have ih: "poll getOp h' (Suc a) (log @ poll_round a)
              = ((log @ poll_round a) @ concat (map poll_round [Suc a..<k]), Inr (held, k))"
    using Suc.prems lt by (intro Suc.IH [OF _ _ _ hs]) auto
  have upt: "[a..<k] = a # [Suc a..<k]" using lt by (simp add: upt_rec)
  show ?case unfolding step upt using ih by simp
qed

lemma poll_from_reject:
  "k - a = n \<Longrightarrow> a \<le> k \<Longrightarrow> k < maxAttempts \<Longrightarrow> handle_after getOp operation a = Inr h \<Longrightarrow>
   (\<forall>j. a \<le> j \<and> j \<le> k \<longrightarrow> pending_after getOp operation j) \<Longrightarrow>
   handle_after getOp operation (Suc k) = Inl e \<Longrightarrow>
   poll getOp h a log = (log @ concat (map poll_round [a..<Suc k]), Inl e)"
proof (induction n arbitrary: a h log)
  case 0
  then have ak: "a = k" by simp
  with 0 have pa: "pending_after getOp operation a" by simp
  with 0(4) have nd: "\<not> op_done h" by (simp add: pending_after_def)
  have g: "getOp a h = Inl e"
    using handle_after_Suc_Inr [OF 0(4)] 0(6) ak by simp
  have "poll getOp h a log = (log @ poll_round a, Inl e)"
    using nd g 0(3) unfolding ak by (simp add: poll.simps [of getOp h k log])
  then show ?case unfolding ak by simp
next
  case (Suc n)
  then have lt: "a < k" by simp
  with Suc.prems have pa: "pending_after getOp operation a" by simp
  with Suc.prems(4) have nd: "\<not> op_done h" by (simp add: pending_after_def)
  from lt Suc.prems(3) have am: "a < maxAttempts" by simp
  from lt Suc.prems(5) have "pending_after getOp operation (Suc a)" by simp
  then have "\<exists>h'. getOp a h = Inr h'"
    using handle_after_Suc_Inr [OF Suc.prems(4)]
    by (cases "getOp a h") (simp_all add: pending_after_def)
  then obtain h' where g: "getOp a h = Inr h'" by blast
  then have hs: "handle_after getOp operation (Suc a) = Inr h'"
    using handle_after_Suc_Inr [OF Suc.prems(4)] by simp
  have step: "poll getOp h a log = poll getOp h' (a + 1) (log @ poll_round a)"
    using nd am g by (simp add: poll.simps [of getOp h a log])
  have ih: "poll getOp h' (Suc a) (log @ poll_round a)
              = ((log @ poll_round a) @ concat (map poll_round [Suc a..<Suc k]), Inl e)"
    using Suc.prems lt by (intro Suc.IH [OF _ _ _ hs]) auto
  have upt: "[a..<Suc k] = a # [Suc a..<Suc k]" using lt by (simp add: upt_rec)
  show ?case unfolding step upt using ih by simp
qed

lemma sleep_total_append: "sleep_total (a @ b) = sleep_total a + sleep_total b"
  by (simp add: sleep_total_def)

lemma sleep_total_rounds:
  "sleep_total (concat (map poll_round [a..<a + k])) = k * pollInterval"
proof (induction k)
  case 0
  show ?case by (simp add: sleep_total_def)
next
  case (Suc k)
  have "[a..<a + Suc k] = [a..<a + k] @ [a + k]" by simp
  then show ?case using Suc
    by (simp add: sleep_total_append) (simp add: sleep_total_def poll_round_def)
qed

lemma sleep_total_startup: "sleep_total startup_progress = 0"
  by (simp add: sleep_total_def startup_progress_def)

text \<open>
  Claim C5. Call the handle pending after \<open>j\<close> queries when none of the first \<open>j\<close>
  status queries was rejected and the handle the \<open>j\<close>-th one returned (the initial
  handle for \<open>j = 0\<close>) is not done. Each round of the loop is, in this order, a sleep of
  10000 milliseconds, the progress message with ten seconds per attempt made, and then
  the status query. Started with the attempt counter at 0:

  \<^item> when the handle is pending after each of the first \<open>k\<close> queries, \<open>k\<close> at most 30,
    and the handle \<open>held\<close> after \<open>k\<close> queries is done or \<open>k\<close> is 30, the loop makes
    exactly the rounds \<open>0, \<dots>, k - 1\<close> and ends with \<open>held\<close> and the counter at
    \<open>k\<close>: it stops at the first answer that is done and never makes a 31st query;
  \<^item> when query \<open>k\<close>, below 30, is the first rejected one, the loop makes the rounds
    \<open>0, \<dots>, k\<close> and the rejection is the result;
  \<^item> \<open>k\<close> rounds sleep \<open>k\<close> times 10000 milliseconds.

  For the whole call, once the image is read and the request accepted: when the loop
  stops at a done handle the result is what the steps after the loop make of that handle,
  after the rounds; when the handle is still pending after 30 queries the call makes the
  30 rounds, five minutes of sleep, and fails with the timeout message; when a query is
  rejected the call fails with that rejection.
\<close>

theorem animate_polling:
  "(k \<le> 30 \<and> (\<forall>j<k. pending_after getOp operation j)
      \<and> handle_after getOp operation k = Inr held \<and> (op_done held \<or> k = 30) \<longrightarrow>
    poll getOp operation 0 log = (log @ concat (map poll_round [0..<k]), Inr (held, k)))
   \<and> (k < 30 \<and> (\<forall>j\<le>k. pending_after getOp operation j)
        \<and> handle_after getOp operation (Suc k) = Inl e \<longrightarrow>
      poll getOp operation 0 log = (log @ concat (map poll_round [0..<Suc k]), Inl e))
   \<and> poll_round j =
       [Sleep 10000,
        Progress (''Checking progress ('' @ show_nat ((j + 1) * 10) @ ''s elapsed)...''),
        GetVideosOperation]
   \<and> sleep_total (concat (map poll_round [0..<k])) = k * 10000
   \<and> (fileToPart (env_reader env) = Inr i \<and> env_generateVideos env = Inr operation
        \<and> getOp = env_getVideosOperation env \<longrightarrow>
      (k \<le> 30 \<and> (\<forall>j<k. pending_after getOp operation j)
         \<and> handle_after getOp operation k = Inr held \<and> op_done held \<longrightarrow>
       generateVideoFromImage env
         = (startup_progress @ concat (map poll_round [0..<k]) @ fst (afterPolling env held),
            snd (afterPolling env held)))
      \<and> ((\<forall>j\<le>30. pending_after getOp operation j) \<longrightarrow>
         generateVideoFromImage env
           = (startup_progress @ concat (map poll_round [0..<30]),
              Inl (Error ''Video generation timed out after 5 minutes.''))
         \<and> sleep_total (startup_progress @ concat (map poll_round [0..<30])) = 5 * 60 * 1000)
      \<and> (k < 30 \<and> (\<forall>j\<le>k. pending_after getOp operation j)
           \<and> handle_after getOp operation (Suc k) = Inl e \<longrightarrow>
         generateVideoFromImage env
           = (startup_progress @ concat (map poll_round [0..<Suc k]), Inl e)))"
proof -
  have p1: "poll getOp operation 0 log = (log @ concat (map poll_round [0..<k]), Inr (held, k))"
    if "k \<le> 30" "\<forall>j<k. pending_after getOp operation j"
      "handle_after getOp operation k = Inr held" "op_done held \<or> k = 30"
    for getOp operation log k held
    using that poll_from [of k 0 k getOp operation operation held log]
    by (simp add: maxAttempts_def)
  have p2: "poll getOp operation 0 log = (log @ concat (map poll_round [0..<Suc k]), Inl e)"
    if "k < 30" "\<forall>j\<le>k. pending_after getOp operation j"
      "handle_after getOp operation (Suc k) = Inl e"
    for getOp operation log k e
    using that poll_from_reject [of k 0 k getOp operation operation e log]
    by (simp add: maxAttempts_def)
  have r: "poll_round j =
       [Sleep 10000,
        Progress (''Checking progress ('' @ show_nat ((j + 1) * 10) @ ''s elapsed)...''),
        GetVideosOperation]"
    by (simp add: poll_round_def pollInterval_def)
  have s: "sleep_total (concat (map poll_round [0..<k])) = k * 10000" for k
    using sleep_total_rounds [of 0 k] by (simp add: pollInterval_def)
  have c1: "generateVideoFromImage env
         = (startup_progress @ concat (map poll_round [0..<k]) @ fst (afterPolling env held),
            snd (afterPolling env held))"
    if "fileToPart (env_reader env) = Inr i" "env_generateVideos env = Inr operation"
      "k \<le> 30" "\<forall>j<k. pending_after (env_getVideosOperation env) operation j"
      "handle_after (env_getVideosOperation env) operation k = Inr held" "op_done held"
    using that(1,2) p1 [OF that(3,4,5), of startup_progress] that(6)
    by (simp add: generateVideoFromImage_def startup_progress_def split: prod.splits)
  have c2: "generateVideoFromImage env
           = (startup_progress @ concat (map poll_round [0..<30]),
              Inl (Error ''Video generation timed out after 5 minutes.''))"
    if h: "fileToPart (env_reader env) = Inr i" "env_generateVideos env = Inr operation"
      "\<forall>j\<le>30. pending_after (env_getVideosOperation env) operation j"
  proof -
    from h(3) have "pending_after (env_getVideosOperation env) operation 30" by simp
    then obtain held where
      hd: "handle_after (env_getVideosOperation env) operation 30 = Inr held" "\<not> op_done held"
      by (cases "handle_after (env_getVideosOperation env) operation 30")
        (simp_all add: pending_after_def)
    from h(3) have a: "\<forall>j<30. pending_after (env_getVideosOperation env) operation j" by simp
    have "poll (env_getVideosOperation env) operation 0 startup_progress
            = (startup_progress @ concat (map poll_round [0..<30]), Inr (held, 30))"
      using p1 [OF _ a hd(1)] by simp
    then show ?thesis
      using h(1,2) hd(2)
      by (simp add: generateVideoFromImage_def startup_progress_def afterPolling_def)
  qed
  have c2s: "sleep_total (startup_progress @ concat (map poll_round [0..<30])) = 5 * 60 * 1000"
    using s [of 30] by (simp add: sleep_total_append sleep_total_startup)
  have c3: "generateVideoFromImage env
           = (startup_progress @ concat (map poll_round [0..<Suc k]), Inl e)"
    if "fileToPart (env_reader env) = Inr i" "env_generateVideos env = Inr operation"
      "k < 30" "\<forall>j\<le>k. pending_after (env_getVideosOperation env) operation j"
      "handle_after (env_getVideosOperation env) operation (Suc k) = Inl e"
    using that(1,2) p2 [OF that(3,4,5), of startup_progress]
    by (simp add: generateVideoFromImage_def startup_progress_def)
  show ?thesis
  proof (intro conjI impI)
    show "poll getOp operation 0 log = (log @ concat (map poll_round [0..<k]), Inr (held, k))"
      if "k \<le> 30 \<and> (\<forall>j<k. pending_after getOp operation j)
          \<and> handle_after getOp operation k = Inr held \<and> (op_done held \<or> k = 30)"
      using that p1 by blast
    show "poll getOp operation 0 log = (log @ concat (map poll_round [0..<Suc k]), Inl e)"
      if "k < 30 \<and> (\<forall>j\<le>k. pending_after getOp operation j)
          \<and> handle_after getOp operation (Suc k) = Inl e"
      using that p2 by blast
    show "poll_round j =
       [Sleep 10000,
        Progress (''Checking progress ('' @ show_nat ((j + 1) * 10) @ ''s elapsed)...''),
        GetVideosOperation]"
      by (rule r)
    show "sleep_total (concat (map poll_round [0..<k])) = k * 10000" by (rule s)
    show "generateVideoFromImage env
         = (startup_progress @ concat (map poll_round [0..<k]) @ fst (afterPolling env held),
            snd (afterPolling env held))"
      if "fileToPart (env_reader env) = Inr i \<and> env_generateVideos env = Inr operation
          \<and> getOp = env_getVideosOperation env"
        "k \<le> 30 \<and> (\<forall>j<k. pending_after getOp operation j)
         \<and> handle_after getOp operation k = Inr held \<and> op_done held"
      using that c1 by blast
    show "generateVideoFromImage env
           = (startup_progress @ concat (map poll_round [0..<30]),
              Inl (Error ''Video generation timed out after 5 minutes.''))"
      if "fileToPart (env_reader env) = Inr i \<and> env_generateVideos env = Inr operation
          \<and> getOp = env_getVideosOperation env"
        "\<forall>j\<le>30. pending_after getOp operation j"
      using that c2 by blast
    show "sleep_total (startup_progress @ concat (map poll_round [0..<30])) = 5 * 60 * 1000"
      by (rule c2s)
    show "generateVideoFromImage env
           = (startup_progress @ concat (map poll_round [0..<Suc k]), Inl e)"
      if "fileToPart (env_reader env) = Inr i \<and> env_generateVideos env = Inr operation
          \<and> getOp = env_getVideosOperation env"
        "k < 30 \<and> (\<forall>j\<le>k. pending_after getOp operation j)
         \<and> handle_after getOp operation (Suc k) = Inl e"
      using that c3 by blast
  qed
qed

lemma video_env_reader_example:
  "fileToPart (Inr ''data:image/png;base64,aGk='')
     = Inr \<lparr>inline_mimeType = Some ''image/png'', inline_data = Some ''aGk=''\<rparr>"
  by (simp add: fileToPart_def Let_def line_terminator_def)

lemma never_done_handle:
  "handle_after (env_getVideosOperation never_done_env)
     \<lparr>op_done = False, op_error = None, op_uri = None\<rparr> j
   = Inr \<lparr>op_done = False, op_error = None, op_uri = None\<rparr>"
  by (induction j) (simp_all add: never_done_env_def)

lemma done_on_third_getOp:
  "env_getVideosOperation done_on_third_env n operation =
     (if n < 2 then Inr operation
      else Inr (operation\<lparr>op_done := True,
                  op_uri := Some ''https://videos.example/v1?alt=media''\<rparr>))"
  by (simp add: done_on_third_env_def)

lemma rejecting_getOp:
  "env_getVideosOperation rejecting_env n operation =
     (if n = 1 then Inl (Error ''fetch failed'') else Inr operation)"
  by (simp add: rejecting_env_def)

lemma done_on_third_handle:
  "handle_after (env_getVideosOperation done_on_third_env)
     \<lparr>op_done = False, op_error = None, op_uri = None\<rparr> 0
   = Inr \<lparr>op_done = False, op_error = None, op_uri = None\<rparr>"
  "handle_after (env_getVideosOperation done_on_third_env)
     \<lparr>op_done = False, op_error = None, op_uri = None\<rparr> (Suc 0)
   = Inr \<lparr>op_done = False, op_error = None, op_uri = None\<rparr>"
  "handle_after (env_getVideosOperation done_on_third_env)
     \<lparr>op_done = False, op_error = None, op_uri = None\<rparr> 2
   = Inr \<lparr>op_done = False, op_error = None, op_uri = None\<rparr>"
  "handle_after (env_getVideosOperation done_on_third_env)
     \<lparr>op_done = False, op_error = None, op_uri = None\<rparr> 3
   = Inr \<lparr>op_done = True, op_error = None,
          op_uri = Some ''https://videos.example/v1?alt=media''\<rparr>"
  by (simp_all add: done_on_third_getOp numeral_2_eq_2 numeral_3_eq_3)

lemma rejecting_handle:
  "handle_after (env_getVideosOperation rejecting_env)
     \<lparr>op_done = False, op_error = None, op_uri = None\<rparr> 0
   = Inr \<lparr>op_done = False, op_error = None, op_uri = None\<rparr>"
  "handle_after (env_getVideosOperation rejecting_env)
     \<lparr>op_done = False, op_error = None, op_uri = None\<rparr> (Suc 0)
   = Inr \<lparr>op_done = False, op_error = None, op_uri = None\<rparr>"
  "handle_after (env_getVideosOperation rejecting_env)
     \<lparr>op_done = False, op_error = None, op_uri = None\<rparr> 2
   = Inl (Error ''fetch failed'')"
  by (simp_all add: rejecting_getOp numeral_2_eq_2)

lemma afterPolling_done_on_third:
  "afterPolling done_on_third_env
     \<lparr>op_done = True, op_error = None, op_uri = Some ''https://videos.example/v1?alt=media''\<rparr>
   = ([Progress ''Downloading generated video...'', Progress ''Video downloaded successfully!''],
      Inr \<lparr>file_name = ''video-1700000000000.mp4'', file_type = ''video/mp4'',
           file_bytes = [0, 0, 0, 24]\<rparr>)"
  by (simp add: afterPolling_def done_on_third_env_def truthy_def js_str_def new_File_def
        printable_def ascii_lower_def show_nat_example)

lemma three_rounds:
  "concat (map poll_round [0..<3])
   = [Sleep 10000, Progress ''Checking progress (10s elapsed)...'', GetVideosOperation,
      Sleep 10000, Progress ''Checking progress (20s elapsed)...'', GetVideosOperation,
      Sleep 10000, Progress ''Checking progress (30s elapsed)...'', GetVideosOperation]"
proof -
  have "[0..<3] = [0, Suc 0, 2]" by (simp add: numeral_3_eq_3 numeral_2_eq_2)
  then show ?thesis
    by (simp add: poll_round_def pollInterval_def show_nat.simps char_of_eq_iff)
qed

text \<open>
  Three services. One answers every query with an unfinished operation: 30 rounds, five
  minutes of sleep and the timeout. One reports the operation done on the third query:
  three rounds, no fourth query, then the download. One rejects the second query: two
  rounds, and the rejection is the result.
\<close>

theorem animate_polling_witness:
  "fileToPart (env_reader never_done_env)
     = Inr \<lparr>inline_mimeType = Some ''image/png'', inline_data = Some ''aGk=''\<rparr>
   \<and> env_generateVideos never_done_env = Inr \<lparr>op_done = False, op_error = None, op_uri = None\<rparr>
   \<and> list_all (pending_after (env_getVideosOperation never_done_env)
                 \<lparr>op_done = False, op_error = None, op_uri = None\<rparr>) [0..<31]
   \<and> generateVideoFromImage never_done_env
       = (startup_progress @ concat (map poll_round [0..<30]),
          Inl (Error ''Video generation timed out after 5 minutes.''))
   \<and> sleep_total (fst (generateVideoFromImage never_done_env)) = 300000
   \<and> list_all (pending_after (env_getVideosOperation done_on_third_env)
                 \<lparr>op_done = False, op_error = None, op_uri = None\<rparr>) [0..<3]
   \<and> handle_after (env_getVideosOperation done_on_third_env)
         \<lparr>op_done = False, op_error = None, op_uri = None\<rparr> 3
       = Inr \<lparr>op_done = True, op_error = None,
              op_uri = Some ''https://videos.example/v1?alt=media''\<rparr>
   \<and> poll (env_getVideosOperation done_on_third_env)
         \<lparr>op_done = False, op_error = None, op_uri = None\<rparr> 0 []
       = ([Sleep 10000, Progress ''Checking progress (10s elapsed)...'', GetVideosOperation,
           Sleep 10000, Progress ''Checking progress (20s elapsed)...'', GetVideosOperation,
           Sleep 10000, Progress ''Checking progress (30s elapsed)...'', GetVideosOperation],
          Inr (\<lparr>op_done = True, op_error = None,
                 op_uri = Some ''https://videos.example/v1?alt=media''\<rparr>, 3))
   \<and> generateVideoFromImage done_on_third_env
       = (startup_progress @ concat (map poll_round [0..<3])
            @ [Progress ''Downloading generated video...'',
               Progress ''Video downloaded successfully!''],
          Inr \<lparr>file_name = ''video-1700000000000.mp4'', file_type = ''video/mp4'',
               file_bytes = [0, 0, 0, 24]\<rparr>)
   \<and> list_all (pending_after (env_getVideosOperation rejecting_env)
                 \<lparr>op_done = False, op_error = None, op_uri = None\<rparr>) [0..<2]
   \<and> handle_after (env_getVideosOperation rejecting_env)
         \<lparr>op_done = False, op_error = None, op_uri = None\<rparr> 2
       = Inl (Error ''fetch failed'')
   \<and> generateVideoFromImage rejecting_env
       = (startup_progress @ concat (map poll_round [0..<2]), Inl (Error ''fetch failed''))"
proof -
  let ?o = "\<lparr>op_done = False, op_error = None, op_uri = None\<rparr>"
  let ?d = "\<lparr>op_done = True, op_error = None,
             op_uri = Some ''https://videos.example/v1?alt=media''\<rparr>"
  let ?i = "\<lparr>inline_mimeType = Some ''image/png'', inline_data = Some ''aGk=''\<rparr>"
  have r: "fileToPart (env_reader never_done_env) = Inr ?i"
    "fileToPart (env_reader done_on_third_env) = Inr ?i"
    "fileToPart (env_reader rejecting_env) = Inr ?i"
    by (simp_all add: never_done_env_def done_on_third_env_def rejecting_env_def
          video_env_reader_example)
  have g: "env_generateVideos never_done_env = Inr ?o"
    "env_generateVideos done_on_third_env = Inr ?o"
    "env_generateVideos rejecting_env = Inr ?o"
    by (simp_all add: never_done_env_def done_on_third_env_def rejecting_env_def)
  have n: "pending_after (env_getVideosOperation never_done_env) ?o j" for j
    by (simp add: pending_after_def never_done_handle)
  have d: "pending_after (env_getVideosOperation done_on_third_env) ?o j" if "j < 3" for j
  proof -
    from that have "j = 0 \<or> j = Suc 0 \<or> j = 2" by arith
    then show ?thesis by (auto simp: pending_after_def done_on_third_handle done_on_third_getOp)
  qed
  have j: "pending_after (env_getVideosOperation rejecting_env) ?o j" if "j \<le> 1" for j
  proof -
    from that have "j = 0 \<or> j = Suc 0" by arith
    then show ?thesis by (auto simp: pending_after_def rejecting_handle rejecting_getOp)
  qed
  have n1: "generateVideoFromImage never_done_env
       = (startup_progress @ concat (map poll_round [0..<30]),
          Inl (Error ''Video generation timed out after 5 minutes.''))
     \<and> sleep_total (startup_progress @ concat (map poll_round [0..<30])) = 5 * 60 * 1000"
    using animate_polling [where env = never_done_env
        and getOp = "env_getVideosOperation never_done_env" and operation = ?o and i = ?i
        and k = 0 and held = ?o and e = NonError and log = "[]" and j = 0] r(1) g(1) n
    by simp
  have d1: "poll (env_getVideosOperation done_on_third_env) ?o 0 []
              = ([] @ concat (map poll_round [0..<3]), Inr (?d, 3))
     \<and> generateVideoFromImage done_on_third_env
       = (startup_progress @ concat (map poll_round [0..<3])
            @ fst (afterPolling done_on_third_env ?d),
          snd (afterPolling done_on_third_env ?d))"
    using animate_polling [where env = done_on_third_env
        and getOp = "env_getVideosOperation done_on_third_env" and operation = ?o and i = ?i
        and k = 3 and held = ?d and e = NonError and log = "[]" and j = 0] r(2) g(2) d
      done_on_third_handle(4)
    by simp
  have j1: "generateVideoFromImage rejecting_env
       = (startup_progress @ concat (map poll_round [0..<Suc 1]), Inl (Error ''fetch failed''))"
    using animate_polling [where env = rejecting_env
        and getOp = "env_getVideosOperation rejecting_env" and operation = ?o and i = ?i
        and k = 1 and held = ?o and e = "Error ''fetch failed''" and log = "[]" and j = 0]
      r(3) g(3) j rejecting_handle(3)
    by (simp add: numeral_2_eq_2)
  have two: "Suc 1 = 2" by simp
  show ?thesis
  proof (intro conjI)
    show "fileToPart (env_reader never_done_env) = Inr ?i" by (rule r(1))
    show "env_generateVideos never_done_env = Inr ?o" by (rule g(1))
    show "list_all (pending_after (env_getVideosOperation never_done_env) ?o) [0..<31]"
      using n by (simp add: list_all_iff)
    show "generateVideoFromImage never_done_env
       = (startup_progress @ concat (map poll_round [0..<30]),
          Inl (Error ''Video generation timed out after 5 minutes.''))"
      using n1 by simp
    show "sleep_total (fst (generateVideoFromImage never_done_env)) = 300000"
      using n1 by simp
    show "list_all (pending_after (env_getVideosOperation done_on_third_env) ?o) [0..<3]"
      using d by (simp add: list_all_iff)
    show "handle_after (env_getVideosOperation done_on_third_env) ?o 3 = Inr ?d"
      by (rule done_on_third_handle(4))
    show "poll (env_getVideosOperation done_on_third_env) ?o 0 []
       = ([Sleep 10000, Progress ''Checking progress (10s elapsed)...'', GetVideosOperation,
           Sleep 10000, Progress ''Checking progress (20s elapsed)...'', GetVideosOperation,
           Sleep 10000, Progress ''Checking progress (30s elapsed)...'', GetVideosOperation],
          Inr (?d, 3))"
      using d1 unfolding three_rounds by simp
    show "generateVideoFromImage done_on_third_env
       = (startup_progress @ concat (map poll_round [0..<3])
            @ [Progress ''Downloading generated video...'',
               Progress ''Video downloaded successfully!''],
          Inr \<lparr>file_name = ''video-1700000000000.mp4'', file_type = ''video/mp4'',
               file_bytes = [0, 0, 0, 24]\<rparr>)"
      using d1 unfolding afterPolling_done_on_third by simp
    show "list_all (pending_after (env_getVideosOperation rejecting_env) ?o) [0..<2]"
      using j by (simp add: list_all_iff)
    show "handle_after (env_getVideosOperation rejecting_env) ?o 2
            = Inl (Error ''fetch failed'')"
      by (rule rejecting_handle(3))
    show "generateVideoFromImage rejecting_env
       = (startup_progress @ concat (map poll_round [0..<2]), Inl (Error ''fetch failed''))"
      using j1 unfolding two by simp
  qed
qed

section \<open>Properties of the operation handlers\<close>

text \<open>
  Claim C3. For each of the eight operations, when the awaited gateway call rejects with
  \<open>e\<close>, the handler returns a state with the entries and the cursor it was given and with
  an error message set. When the handler got past its guards, the message is the
  operation's prefix followed by the message of \<open>e\<close>. The other failure path of the
  synchronous operations, a returned URL that \<^verbatim>\<open>dataURLtoFile\<close> rejects with \<open>d\<close>, ends
  in the very state that a gateway rejection with \<open>d\<close> ends in. The same holds when
  other handlers ran during the wait: the step that runs when the gateway call has
  rejected, on whatever state \<open>t\<close> is current by then and for whatever render \<open>r\<close> the
  handler belongs to, keeps the entries and the cursor of \<open>t\<close> and sets the message.
\<close>

theorem gateway_failure_keeps_history:
  "history (handleApplyFilter s now (Inl e)) = history s
   \<and> historyIndex (handleApplyFilter s now (Inl e)) = historyIndex s
   \<and> error (handleApplyFilter s now (Inl e)) \<noteq> None
   \<and> history (handleApplyAdjustment s now (Inl e)) = history s
   \<and> historyIndex (handleApplyAdjustment s now (Inl e)) = historyIndex s
   \<and> error (handleApplyAdjustment s now (Inl e)) \<noteq> None
   \<and> history (handleGenerate3DView s now (Inl e)) = history s
   \<and> historyIndex (handleGenerate3DView s now (Inl e)) = historyIndex s
   \<and> error (handleGenerate3DView s now (Inl e)) \<noteq> None
   \<and> history (handleRemoveBackground s now (Inl e)) = history s
   \<and> historyIndex (handleRemoveBackground s now (Inl e)) = historyIndex s
   \<and> error (handleRemoveBackground s now (Inl e)) \<noteq> None
   \<and> history (handleRestorePhoto s now (Inl e)) = history s
   \<and> historyIndex (handleRestorePhoto s now (Inl e)) = historyIndex s
   \<and> error (handleRestorePhoto s now (Inl e)) \<noteq> None
   \<and> history (handleGroupRestorePhoto s now (Inl e)) = history s
   \<and> historyIndex (handleGroupRestorePhoto s now (Inl e)) = historyIndex s
   \<and> error (handleGroupRestorePhoto s now (Inl e)) \<noteq> None
   \<and> history (handleGenerate s now (Inl e)) = history s
   \<and> historyIndex (handleGenerate s now (Inl e)) = historyIndex s
   \<and> error (handleGenerate s now (Inl e)) \<noteq> None
   \<and> history (handleGenerateVideo s p (Inl e)) = history s
   \<and> historyIndex (handleGenerateVideo s p (Inl e)) = historyIndex s
   \<and> error (handleGenerateVideo s p (Inl e)) \<noteq> None
   \<and> (currentImage s \<noteq> None \<and> \<not> isCurrentItemVideo s \<longrightarrow>
        error (handleApplyFilter s now (Inl e)) = Some (''Failed to apply the filter. '' @ errorMessage e)
        \<and> error (handleApplyAdjustment s now (Inl e)) = Some (''Failed to apply the adjustment. '' @ errorMessage e)
        \<and> error (handleGenerate3DView s now (Inl e)) = Some (''Failed to generate the 3D view. '' @ errorMessage e)
        \<and> error (handleRemoveBackground s now (Inl e)) = Some (''Failed to remove background. '' @ errorMessage e)
        \<and> error (handleRestorePhoto s now (Inl e)) = Some (''Failed to restore photo. '' @ errorMessage e)
        \<and> error (handleGroupRestorePhoto s now (Inl e)) = Some (''Failed to restore group photo. '' @ errorMessage e)
        \<and> (js_trim (prompt s) \<noteq> [] \<and> editHotspot s \<noteq> None \<longrightarrow>
             error (handleGenerate s now (Inl e))
               = Some (''Failed to generate the image. '' @ errorMessage e))
        \<and> (js_trim p \<noteq> [] \<longrightarrow>
             error (handleGenerateVideo s p (Inl e))
               = Some (''Failed to generate the video. '' @ errorMessage e)))
   \<and> (dataURLtoFile url (''filtered-'' @ show_nat now @ ''.png'') = Inl d \<longrightarrow>
        handleApplyFilter s now (Inr url) = handleApplyFilter s now (Inl d))
   \<and> (dataURLtoFile url (''adjusted-'' @ show_nat now @ ''.png'') = Inl d \<longrightarrow>
        handleApplyAdjustment s now (Inr url) = handleApplyAdjustment s now (Inl d))
   \<and> (dataURLtoFile url (''3dview-'' @ show_nat now @ ''.png'') = Inl d \<longrightarrow>
        handleGenerate3DView s now (Inr url) = handleGenerate3DView s now (Inl d))
   \<and> (dataURLtoFile url (''bg-removed-'' @ show_nat now @ ''.png'') = Inl d \<longrightarrow>
        handleRemoveBackground s now (Inr url) = handleRemoveBackground s now (Inl d))
   \<and> (dataURLtoFile url (''restored-'' @ show_nat now @ ''.png'') = Inl d \<longrightarrow>
        handleRestorePhoto s now (Inr url) = handleRestorePhoto s now (Inl d))
   \<and> (dataURLtoFile url (''restored-group-'' @ show_nat now @ ''.png'') = Inl d \<longrightarrow>
        handleGroupRestorePhoto s now (Inr url) = handleGroupRestorePhoto s now (Inl d))
   \<and> (dataURLtoFile url (''edited-'' @ show_nat now @ ''.png'') = Inl d \<longrightarrow>
        handleGenerate s now (Inr url) = handleGenerate s now (Inl d))
   \<and> history (applyGenerated_settle filePrefix failPrefix resetMessage r now (Inl e) t) = history t
   \<and> historyIndex (applyGenerated_settle filePrefix failPrefix resetMessage r now (Inl e) t)
       = historyIndex t
   \<and> error (applyGenerated_settle filePrefix failPrefix resetMessage r now (Inl e) t)
       = Some (failPrefix @ errorMessage e)
   \<and> history (handleGenerate_settle r now (Inl e) t) = history t
   \<and> historyIndex (handleGenerate_settle r now (Inl e) t) = historyIndex t
   \<and> error (handleGenerate_settle r now (Inl e) t)
       = Some (''Failed to generate the image. '' @ errorMessage e)
   \<and> history (handleGenerateVideo_settle r (Inl e) t) = history t
   \<and> historyIndex (handleGenerateVideo_settle r (Inl e) t) = historyIndex t
   \<and> error (handleGenerateVideo_settle r (Inl e) t)
       = Some (''Failed to generate the video. '' @ errorMessage e)"
proof -
  have a: "history (applyGenerated a b c f x s now (Inl e)) = history s
      \<and> historyIndex (applyGenerated a b c f x s now (Inl e)) = historyIndex s
      \<and> error (applyGenerated a b c f x s now (Inl e)) \<noteq> None" for a b c f x
    by (simp add: applyGenerated_failure)
  have m: "error (applyGenerated a b c f x s now (Inl e)) = Some (f @ errorMessage e)"
    if "currentImage s \<noteq> None \<and> \<not> isCurrentItemVideo s" for a b c f x
    using that by (auto simp: applyGenerated_failure)
  have g: "history (handleGenerate s now (Inl e)) = history s
      \<and> historyIndex (handleGenerate s now (Inl e)) = historyIndex s
      \<and> error (handleGenerate s now (Inl e)) \<noteq> None"
    by (simp add: handleGenerate_unfold Let_def)
  have gm: "error (handleGenerate s now (Inl e))
               = Some (''Failed to generate the image. '' @ errorMessage e)"
    if "currentImage s \<noteq> None \<and> \<not> isCurrentItemVideo s"
      "js_trim (prompt s) \<noteq> [] \<and> editHotspot s \<noteq> None"
    using that by (auto simp: handleGenerate_unfold Let_def)
  have v: "history (handleGenerateVideo s p (Inl e)) = history s
      \<and> historyIndex (handleGenerateVideo s p (Inl e)) = historyIndex s
      \<and> error (handleGenerateVideo s p (Inl e)) \<noteq> None"
    by (simp add: handleGenerateVideo_unfold Let_def)
  have vm: "error (handleGenerateVideo s p (Inl e))
               = Some (''Failed to generate the video. '' @ errorMessage e)"
    if "currentImage s \<noteq> None \<and> \<not> isCurrentItemVideo s" "js_trim p \<noteq> []"
    using that by (auto simp: handleGenerateVideo_unfold Let_def)
  have t: "history (applyGenerated_settle filePrefix failPrefix resetMessage r now (Inl e) t)
        = history t
      \<and> historyIndex (applyGenerated_settle filePrefix failPrefix resetMessage r now (Inl e) t)
        = historyIndex t
      \<and> error (applyGenerated_settle filePrefix failPrefix resetMessage r now (Inl e) t)
        = Some (failPrefix @ errorMessage e)"
    by (simp add: applyGenerated_settle_def Let_def)
  have tg: "history (handleGenerate_settle r now (Inl e) t) = history t
      \<and> historyIndex (handleGenerate_settle r now (Inl e) t) = historyIndex t
      \<and> error (handleGenerate_settle r now (Inl e) t)
        = Some (''Failed to generate the image. '' @ errorMessage e)"
    by (simp add: handleGenerate_settle_def Let_def)
  have tv: "history (handleGenerateVideo_settle r (Inl e) t) = history t
      \<and> historyIndex (handleGenerateVideo_settle r (Inl e) t) = historyIndex t
      \<and> error (handleGenerateVideo_settle r (Inl e) t)
        = Some (''Failed to generate the video. '' @ errorMessage e)"
    by (simp add: handleGenerateVideo_settle_def Let_def)
  show ?thesis
    unfolding sync_handler_defs
    by (auto simp: a m g gm v vm t tg tv applyGenerated_decode_failure
          handleGenerate_decode_failure)
qed

text \<open>
  A refusal, as the gateway produces it for a blocked response, and the timeout of the
  video operation, each handed to the handlers of a session that holds one image.
\<close>

theorem gateway_failure_keeps_history_witness:
  "currentImage ready_state \<noteq> None \<and> \<not> isCurrentItemVideo ready_state
   \<and> js_trim (prompt ready_state) \<noteq> [] \<and> editHotspot ready_state \<noteq> None
   \<and> js_trim ''make the clouds drift'' \<noteq> []
   \<and> generateFilteredImage (Inr ''data:image/png;base64,AQID'') (Inr blocked_response)
       = Inl (Error ''Request was blocked. Reason: SAFETY. '')
   \<and> history (handleApplyFilter ready_state 1700000000000 (Inl (Error ''Request was blocked. Reason: SAFETY. ''))) = [image_A]
   \<and> error (handleApplyFilter ready_state 1700000000000 (Inl (Error ''Request was blocked. Reason: SAFETY. '')))
       = Some ''Failed to apply the filter. Request was blocked. Reason: SAFETY. ''
   \<and> history (handleApplyAdjustment ready_state 1700000000000 (Inl (Error ''Request was blocked. Reason: SAFETY. ''))) = [image_A]
   \<and> error (handleApplyAdjustment ready_state 1700000000000 (Inl (Error ''Request was blocked. Reason: SAFETY. '')))
       = Some ''Failed to apply the adjustment. Request was blocked. Reason: SAFETY. ''
   \<and> history (handleGenerate3DView ready_state 1700000000000 (Inl (Error ''Request was blocked. Reason: SAFETY. ''))) = [image_A]
   \<and> error (handleGenerate3DView ready_state 1700000000000 (Inl (Error ''Request was blocked. Reason: SAFETY. '')))
       = Some ''Failed to generate the 3D view. Request was blocked. Reason: SAFETY. ''
   \<and> history (handleRemoveBackground ready_state 1700000000000 (Inl (Error ''Request was blocked. Reason: SAFETY. ''))) = [image_A]
   \<and> error (handleRemoveBackground ready_state 1700000000000 (Inl (Error ''Request was blocked. Reason: SAFETY. '')))
       = Some ''Failed to remove background. Request was blocked. Reason: SAFETY. ''
   \<and> history (handleRestorePhoto ready_state 1700000000000 (Inl (Error ''Request was blocked. Reason: SAFETY. ''))) = [image_A]
   \<and> error (handleRestorePhoto ready_state 1700000000000 (Inl (Error ''Request was blocked. Reason: SAFETY. '')))
       = Some ''Failed to restore photo. Request was blocked. Reason: SAFETY. ''
   \<and> history (handleGroupRestorePhoto ready_state 1700000000000 (Inl (Error ''Request was blocked. Reason: SAFETY. ''))) = [image_A]
   \<and> error (handleGroupRestorePhoto ready_state 1700000000000 (Inl (Error ''Request was blocked. Reason: SAFETY. '')))
       = Some ''Failed to restore group photo. Request was blocked. Reason: SAFETY. ''
   \<and> history (handleGenerate ready_state 1700000000000
                 (Inl (Error ''Request was blocked. Reason: SAFETY. ''))) = [image_A]
   \<and> error (handleGenerate ready_state 1700000000000
               (Inl (Error ''Request was blocked. Reason: SAFETY. '')))
       = Some ''Failed to generate the image. Request was blocked. Reason: SAFETY. ''
   \<and> dataURLtoFile ''no data here'' (''filtered-'' @ show_nat 1700000000000 @ ''.png'')
       = Inl (Error ''Invalid data URL'')
   \<and> history (handleApplyFilter ready_state 1700000000000 (Inr ''no data here'')) = [image_A]
   \<and> error (handleApplyFilter ready_state 1700000000000 (Inr ''no data here''))
       = Some ''Failed to apply the filter. Invalid data URL''
   \<and> dataURLtoFile ''no data here'' (''adjusted-'' @ show_nat 1700000000000 @ ''.png'')
       = Inl (Error ''Invalid data URL'')
   \<and> history (handleApplyAdjustment ready_state 1700000000000 (Inr ''no data here'')) = [image_A]
   \<and> error (handleApplyAdjustment ready_state 1700000000000 (Inr ''no data here''))
       = Some ''Failed to apply the adjustment. Invalid data URL''
   \<and> dataURLtoFile ''no data here'' (''3dview-'' @ show_nat 1700000000000 @ ''.png'')
       = Inl (Error ''Invalid data URL'')
   \<and> history (handleGenerate3DView ready_state 1700000000000 (Inr ''no data here'')) = [image_A]
   \<and> error (handleGenerate3DView ready_state 1700000000000 (Inr ''no data here''))
       = Some ''Failed to generate the 3D view. Invalid data URL''
   \<and> dataURLtoFile ''no data here'' (''bg-removed-'' @ show_nat 1700000000000 @ ''.png'')
       = Inl (Error ''Invalid data URL'')
   \<and> history (handleRemoveBackground ready_state 1700000000000 (Inr ''no data here'')) = [image_A]
   \<and> error (handleRemoveBackground ready_state 1700000000000 (Inr ''no data here''))
       = Some ''Failed to remove background. Invalid data URL''
   \<and> dataURLtoFile ''no data here'' (''restored-'' @ show_nat 1700000000000 @ ''.png'')
       = Inl (Error ''Invalid data URL'')
   \<and> history (handleRestorePhoto ready_state 1700000000000 (Inr ''no data here'')) = [image_A]
   \<and> error (handleRestorePhoto ready_state 1700000000000 (Inr ''no data here''))
       = Some ''Failed to restore photo. Invalid data URL''
   \<and> dataURLtoFile ''no data here'' (''restored-group-'' @ show_nat 1700000000000 @ ''.png'')
       = Inl (Error ''Invalid data URL'')
   \<and> history (handleGroupRestorePhoto ready_state 1700000000000 (Inr ''no data here'')) = [image_A]
   \<and> error (handleGroupRestorePhoto ready_state 1700000000000 (Inr ''no data here''))
       = Some ''Failed to restore group photo. Invalid data URL''
   \<and> dataURLtoFile ''no data here'' (''edited-'' @ show_nat 1700000000000 @ ''.png'')
       = Inl (Error ''Invalid data URL'')
   \<and> history (handleGenerate ready_state 1700000000000 (Inr ''no data here'')) = [image_A]
   \<and> error (handleGenerate ready_state 1700000000000 (Inr ''no data here''))
       = Some ''Failed to generate the image. Invalid data URL''
   \<and> history (handleGenerateVideo ready_state ''make the clouds drift''
                 (Inl (Error ''Video generation timed out after 5 minutes.''))) = [image_A]
   \<and> error (handleGenerateVideo ready_state ''make the clouds drift''
               (Inl (Error ''Video generation timed out after 5 minutes.'')))
       = Some ''Failed to generate the video. Video generation timed out after 5 minutes.''"
proof -
  have s: "currentImage ready_state \<noteq> None \<and> \<not> isCurrentItemVideo ready_state
     \<and> js_trim (prompt ready_state) \<noteq> [] \<and> editHotspot ready_state \<noteq> None"
    by (simp add: ready_state_current)
  have p: "js_trim ''make the clouds drift'' \<noteq> []"
    by (simp add: js_trim_def js_whitespace_def)
  have b: "generateFilteredImage (Inr ''data:image/png;base64,AQID'') (Inr blocked_response)
       = Inl (Error ''Request was blocked. Reason: SAFETY. '')"
    by (simp add: generateFilteredImage_def generateWithContext_def fileToPart_def Let_def
          handleApiResponse_def blocked_response_def blockReason_def blockReasonMessage_def
          truthy_def js_str_def line_terminator_def)
  show ?thesis
    using s p b
      gateway_failure_keeps_history [where s = ready_state and now = 1700000000000
        and e = "Error ''Request was blocked. Reason: SAFETY. ''"
        and p = "''make the clouds drift''" and url = "''no data here''"
        and d = "Error ''Invalid data URL''" and filePrefix = "''filtered-''"
        and failPrefix = "''Failed to apply the filter. ''" and resetMessage = False
        and r = ready_state and t = ready_state]
      gateway_failure_keeps_history [where s = ready_state and now = 1700000000000
        and e = "Error ''Video generation timed out after 5 minutes.''"
        and p = "''make the clouds drift''" and url = "''no data here''"
        and d = "Error ''Invalid data URL''" and filePrefix = "''filtered-''"
        and failPrefix = "''Failed to apply the filter. ''" and resetMessage = False
        and r = ready_state and t = ready_state]
      gateway_failure_keeps_history [where s = ready_state and now = 1700000000000
        and e = "Error ''Invalid data URL''"
        and p = "''make the clouds drift''" and url = "''no data here''"
        and d = "Error ''Invalid data URL''" and filePrefix = "''filtered-''"
        and failPrefix = "''Failed to apply the filter. ''" and resetMessage = False
        and r = ready_state and t = ready_state]
    by (simp add: ready_state_current errorMessage_def dataURLtoFile_no_comma)
qed

text \<open>
  Claim C7, as the code has it. Appending to the history clears the crop selection and
  leaves both hotspots as they were, whichever render the append belongs to. Filter, adjustment, 3-D view, background removal,
  restore, group restore, animation and crop never change the hotspots, whatever their
  outcome. Only the edit clears them, after its append.
\<close>

theorem append_keeps_hotspot:
  "editHotspot (addImageToHistory r s f) = editHotspot s
   \<and> displayHotspot (addImageToHistory r s f) = displayHotspot s
   \<and> crop (addImageToHistory r s f) = None
   \<and> completedCrop (addImageToHistory r s f) = None
   \<and> editHotspot (handleApplyFilter s now result) = editHotspot s
   \<and> displayHotspot (handleApplyFilter s now result) = displayHotspot s
   \<and> editHotspot (handleApplyAdjustment s now result) = editHotspot s
   \<and> displayHotspot (handleApplyAdjustment s now result) = displayHotspot s
   \<and> editHotspot (handleGenerate3DView s now result) = editHotspot s
   \<and> displayHotspot (handleGenerate3DView s now result) = displayHotspot s
   \<and> editHotspot (handleRemoveBackground s now result) = editHotspot s
   \<and> displayHotspot (handleRemoveBackground s now result) = displayHotspot s
   \<and> editHotspot (handleRestorePhoto s now result) = editHotspot s
   \<and> displayHotspot (handleRestorePhoto s now result) = displayHotspot s
   \<and> editHotspot (handleGroupRestorePhoto s now result) = editHotspot s
   \<and> displayHotspot (handleGroupRestorePhoto s now result) = displayHotspot s
   \<and> editHotspot (handleGenerateVideo s p videoResult) = editHotspot s
   \<and> displayHotspot (handleGenerateVideo s p videoResult) = displayHotspot s
   \<and> (handleApplyCrop s img ctx croppedImageUrl now = Inr s' \<longrightarrow>
        editHotspot s' = editHotspot s \<and> displayHotspot s' = displayHotspot s)
   \<and> (currentImage s \<noteq> None \<and> \<not> isCurrentItemVideo s
        \<and> js_trim (prompt s) \<noteq> [] \<and> editHotspot s \<noteq> None
        \<and> dataURLtoFile url (''edited-'' @ show_nat now @ ''.png'') = Inr f \<longrightarrow>
        history (handleGenerate s now (Inr url)) = history (addImageToHistory s s f)
        \<and> editHotspot (handleGenerate s now (Inr url)) = None
        \<and> displayHotspot (handleGenerate s now (Inr url)) = None)"
proof -
  have a: "editHotspot (addImageToHistory r s f) = editHotspot s
     \<and> displayHotspot (addImageToHistory r s f) = displayHotspot s
     \<and> crop (addImageToHistory r s f) = None
     \<and> completedCrop (addImageToHistory r s f) = None"
    by (simp add: addImageToHistory_def Let_def)
  have v: "editHotspot (handleGenerateVideo s p videoResult) = editHotspot s
     \<and> displayHotspot (handleGenerateVideo s p videoResult) = displayHotspot s"
    by (simp add: handleGenerateVideo_unfold Let_def addImageToHistory_def split: sum.splits)
  have c: "editHotspot s' = editHotspot s \<and> displayHotspot s' = displayHotspot s"
    if "handleApplyCrop s img ctx croppedImageUrl now = Inr s'"
    using that
    by (auto simp: handleApplyCrop_def addImageToHistory_def Let_def split: if_splits sum.splits)
  have g: "history (handleGenerate s now (Inr url)) = history (addImageToHistory s s f)
        \<and> editHotspot (handleGenerate s now (Inr url)) = None
        \<and> displayHotspot (handleGenerate s now (Inr url)) = None"
    if "currentImage s \<noteq> None" "\<not> isCurrentItemVideo s"
       "js_trim (prompt s) \<noteq> []" "editHotspot s \<noteq> None"
       "dataURLtoFile url (''edited-'' @ show_nat now @ ''.png'') = Inr f"
    unfolding handleGenerate_success [OF that] by simp
  show ?thesis
    unfolding sync_handler_defs
    using a v c g applyGenerated_hotspot by blast
qed

text \<open>
  A crop and an edit of a session with a selected point: the crop keeps the point, the
  edit clears it.
\<close>

theorem append_keeps_hotspot_witness:
  "handleApplyCrop ready_state True True ''data:image/png;base64,aGk='' 1700000000000
     = Inr (addImageToHistory ready_state ready_state
              \<lparr>file_name = ''cropped-1700000000000.png'', file_type = ''image/png'',
               file_bytes = [104, 105]\<rparr>)
   \<and> editHotspot (addImageToHistory ready_state ready_state
              \<lparr>file_name = ''cropped-1700000000000.png'', file_type = ''image/png'',
               file_bytes = [104, 105]\<rparr>) = Some (10, 20)
   \<and> currentImage ready_state \<noteq> None \<and> \<not> isCurrentItemVideo ready_state
   \<and> js_trim (prompt ready_state) \<noteq> [] \<and> editHotspot ready_state \<noteq> None
   \<and> dataURLtoFile ''data:image/png;base64,aGk='' (''edited-'' @ show_nat 1700000000000 @ ''.png'')
       = Inr \<lparr>file_name = ''edited-1700000000000.png'', file_type = ''image/png'',
               file_bytes = [104, 105]\<rparr>
   \<and> history (handleGenerate ready_state 1700000000000 (Inr ''data:image/png;base64,aGk=''))
       = [image_A, \<lparr>file_name = ''edited-1700000000000.png'', file_type = ''image/png'',
                    file_bytes = [104, 105]\<rparr>]
   \<and> editHotspot (handleGenerate ready_state 1700000000000 (Inr ''data:image/png;base64,aGk=''))
       = None
   \<and> displayHotspot (handleGenerate ready_state 1700000000000 (Inr ''data:image/png;base64,aGk=''))
       = None"
proof -
  let ?c = "\<lparr>file_name = ''cropped-1700000000000.png'', file_type = ''image/png'',
               file_bytes = [104, 105]\<rparr>"
  let ?e = "\<lparr>file_name = ''edited-1700000000000.png'', file_type = ''image/png'',
               file_bytes = [104, 105]\<rparr>"
  have c: "handleApplyCrop ready_state True True ''data:image/png;base64,aGk='' 1700000000000
     = Inr (addImageToHistory ready_state ready_state ?c)"
    by (simp add: handleApplyCrop_def dataURLtoFile_png_example show_nat_example ready_state_def)
  have s: "currentImage ready_state \<noteq> None" "\<not> isCurrentItemVideo ready_state"
    "js_trim (prompt ready_state) \<noteq> []" "editHotspot ready_state \<noteq> None"
    by (simp_all add: ready_state_current)
  have f: "dataURLtoFile ''data:image/png;base64,aGk=''
             (''edited-'' @ show_nat 1700000000000 @ ''.png'') = Inr ?e"
    by (simp add: dataURLtoFile_png_example show_nat_example)
  have h: "history (addImageToHistory ready_state ready_state ?e) = [image_A, ?e]"
    by (simp add: addImageToHistory_def Let_def js_slice0_def ready_state_current)
  show ?thesis
    using c s f h
      append_keeps_hotspot [where s = ready_state and img = True and ctx = True
        and croppedImageUrl = "''data:image/png;base64,aGk=''" and now = 1700000000000
        and r = ready_state and s' = "addImageToHistory ready_state ready_state ?c"
        and p = "[]" and result = "Inl NonError" and videoResult = "Inl NonError"
        and url = "''data:image/png;base64,aGk=''" and f = ?e]
    by (simp add: ready_state_current)
qed

text \<open>
  Claim C7 as stated says every append clears the hotspot. A successful filter appends
  its result and moves the cursor to it, and the selected point is still there.
\<close>

theorem filter_keeps_hotspot_counterexample:
  "editHotspot ready_state = Some (10, 20)
   \<and> history ready_state = [image_A]
   \<and> history (handleApplyFilter ready_state 1700000000000 (Inr ''data:image/png;base64,aGk=''))
       = [image_A, \<lparr>file_name = ''filtered-1700000000000.png'', file_type = ''image/png'',
                    file_bytes = [104, 105]\<rparr>]
   \<and> historyIndex
         (handleApplyFilter ready_state 1700000000000 (Inr ''data:image/png;base64,aGk='')) = 1
   \<and> editHotspot
         (handleApplyFilter ready_state 1700000000000 (Inr ''data:image/png;base64,aGk=''))
       = Some (10, 20)"
proof -
  let ?f = "\<lparr>file_name = ''filtered-1700000000000.png'', file_type = ''image/png'',
               file_bytes = [104, 105]\<rparr>"
  have s: "currentImage ready_state \<noteq> None" "\<not> isCurrentItemVideo ready_state"
    by (simp_all add: ready_state_current)
  have f: "dataURLtoFile ''data:image/png;base64,aGk=''
             (''filtered-'' @ show_nat 1700000000000 @ ''.png'') = Inr ?f"
    by (simp add: dataURLtoFile_png_example show_nat_example)
  show ?thesis
    unfolding handleApplyFilter_def applyGenerated_success [OF s f]
    by (simp add: addImageToHistory_def Let_def js_slice0_def ready_state_current)
qed

lemma applyGenerated_settle_current:
  assumes "dataURLtoFile url (filePrefix @ show_nat now @ ''.png'') = Inr f"
  shows "currentImage (applyGenerated_settle filePrefix failPrefix resetMessage r now (Inr url) t)
           = Some f"
  using assms currentImage_addImageToHistory [of r t f]
  by (simp add: applyGenerated_settle_def Let_def currentImage_def)

lemma handleGenerate_settle_current:
  assumes "dataURLtoFile url (''edited-'' @ show_nat now @ ''.png'') = Inr f"
  shows "currentImage (handleGenerate_settle r now (Inr url) t) = Some f"
  using assms currentImage_addImageToHistory [of r t f]
  by (simp add: handleGenerate_settle_def Let_def currentImage_def)

text \<open>
  Claim C9. Let the response be one that the classification takes for a success: it is
  not blocked, and the first inline payload among the parts of its first candidate has
  the MIME type \<open>m\<close> and the base64 data \<open>d\<close>, where \<open>m\<close> is the type of an image
  (\<^verbatim>\<open>image/\<close> and a subtype name) and \<open>d\<close> decodes to the bytes \<open>bstr\<close>. Then the
  classification returns the data URL made of \<open>m\<close> and \<open>d\<close>; converting that data URL
  back gives a file of the type \<open>m\<close> (media type names do not depend on letter case, and
  the file holds the name in lower case) with exactly the bytes \<open>bstr\<close>; and after each
  of the seven synchronous operations on a session that shows an image, that file is the
  current entry and it is an image, not a video. The last part does not depend on what
  happened while the operation was loading: the step that runs when the answer arrives
  makes that file the current entry on whatever state \<open>t\<close> is current by then.
\<close>

theorem inline_payload_round_trip:
  assumes r: "resp_promptFeedback r = None
       \<or> (\<exists>pf. resp_promptFeedback r = Some pf
              \<and> (pf_blockReason pf = None \<or> pf_blockReason pf = Some []))"
      "resp_candidates r = Some (c # cs)" "cand_parts c = Some (before @ p # after)"
      "list_all (\<lambda>q. part_inlineData q = None) before"
      "part_inlineData p = Some \<lparr>inline_mimeType = Some m, inline_data = Some d\<rparr>"
    and m: "image_media_type m" and d: "atob d = Inr bstr"
    and s: "currentImage s \<noteq> None" "\<not> isCurrentItemVideo s"
  shows
   "handleApiResponse r ctx = Inr (''data:'' @ m @ '';base64,'' @ d)
   \<and> dataURLtoFile (''data:'' @ m @ '';base64,'' @ d) filename
       = Inr \<lparr>file_name = filename, file_type = map ascii_lower m,
              file_bytes = map (\<lambda>c. of_nat (of_char c)) bstr\<rparr>
   \<and> startsWith (map ascii_lower m) ''image/''
   \<and> (map ascii_lower m = m \<longrightarrow>
        dataURLtoFile (''data:'' @ m @ '';base64,'' @ d) filename = Inr (decoded_file filename m bstr))
   \<and> currentImage (handleApplyFilter s now (handleApiResponse r ctx))
       = Some (decoded_file (''filtered-'' @ show_nat now @ ''.png'') (map ascii_lower m) bstr)
   \<and> \<not> isCurrentItemVideo (handleApplyFilter s now (handleApiResponse r ctx))
   \<and> currentImage (handleApplyAdjustment s now (handleApiResponse r ctx))
       = Some (decoded_file (''adjusted-'' @ show_nat now @ ''.png'') (map ascii_lower m) bstr)
   \<and> \<not> isCurrentItemVideo (handleApplyAdjustment s now (handleApiResponse r ctx))
   \<and> currentImage (handleGenerate3DView s now (handleApiResponse r ctx))
       = Some (decoded_file (''3dview-'' @ show_nat now @ ''.png'') (map ascii_lower m) bstr)
   \<and> \<not> isCurrentItemVideo (handleGenerate3DView s now (handleApiResponse r ctx))
   \<and> currentImage (handleRemoveBackground s now (handleApiResponse r ctx))
       = Some (decoded_file (''bg-removed-'' @ show_nat now @ ''.png'') (map ascii_lower m) bstr)
   \<and> \<not> isCurrentItemVideo (handleRemoveBackground s now (handleApiResponse r ctx))
   \<and> currentImage (handleRestorePhoto s now (handleApiResponse r ctx))
       = Some (decoded_file (''restored-'' @ show_nat now @ ''.png'') (map ascii_lower m) bstr)
   \<and> \<not> isCurrentItemVideo (handleRestorePhoto s now (handleApiResponse r ctx))
   \<and> currentImage (handleGroupRestorePhoto s now (handleApiResponse r ctx))
       = Some (decoded_file (''restored-group-'' @ show_nat now @ ''.png'') (map ascii_lower m) bstr)
   \<and> \<not> isCurrentItemVideo (handleGroupRestorePhoto s now (handleApiResponse r ctx))
   \<and> (js_trim (prompt s) \<noteq> [] \<and> editHotspot s \<noteq> None \<longrightarrow>
        currentImage (handleGenerate s now (handleApiResponse r ctx))
          = Some (decoded_file (''edited-'' @ show_nat now @ ''.png'') (map ascii_lower m) bstr)
        \<and> \<not> isCurrentItemVideo (handleGenerate s now (handleApiResponse r ctx)))
   \<and> currentImage (applyGenerated_settle filePrefix failPrefix resetMessage render now
                      (handleApiResponse r ctx) t)
       = Some (decoded_file (filePrefix @ show_nat now @ ''.png'') (map ascii_lower m) bstr)
   \<and> \<not> isCurrentItemVideo (applyGenerated_settle filePrefix failPrefix resetMessage render now
                               (handleApiResponse r ctx) t)
   \<and> currentImage (handleGenerate_settle render now (handleApiResponse r ctx) t)
       = Some (decoded_file (''edited-'' @ show_nat now @ ''.png'') (map ascii_lower m) bstr)
   \<and> \<not> isCurrentItemVideo (handleGenerate_settle render now (handleApiResponse r ctx) t)"
proof -
  let ?u = "''data:'' @ m @ '';base64,'' @ d"
  let ?m = "map ascii_lower m"
  note mf = image_media_type_facts [OF m]
  have u: "handleApiResponse r ctx = Inr ?u"
    using r by (rule handleApiResponse_first_inline)
  have f: "dataURLtoFile ?u n = Inr (decoded_file n ?m bstr)" for n
    using dataURLtoFile_data_url [OF mf(1) mf(2) d] by (simp add: decoded_file_def)
  have f': "dataURLtoFile ?u filename
       = Inr \<lparr>file_name = filename, file_type = ?m,
              file_bytes = map (\<lambda>c. of_nat (of_char c)) bstr\<rparr>"
    using f [of filename] by (simp add: decoded_file_def)
  have f'': "dataURLtoFile ?u filename = Inr (decoded_file filename m bstr)"
    if "?m = m"
    using f [of filename] that by simp
  have nv: "\<not> isCurrentItemVideo x" if "currentImage x = Some (decoded_file n ?m bstr)" for x n
    using isCurrentItemVideo_current [OF that] mf(4) by (simp add: decoded_file_type)
  have g: "currentImage (applyGenerated a b q c e s now (Inr ?u))
             = Some (decoded_file (q @ show_nat now @ ''.png'') ?m bstr)" for a b q c e
    using s f by (rule applyGenerated_current)
  have e: "currentImage (handleGenerate s now (Inr ?u))
             = Some (decoded_file (''edited-'' @ show_nat now @ ''.png'') ?m bstr)"
    if "js_trim (prompt s) \<noteq> []" "editHotspot s \<noteq> None"
    using s that f by (rule handleGenerate_current)
  have gs: "currentImage (applyGenerated_settle filePrefix failPrefix resetMessage render now
                            (Inr ?u) t)
             = Some (decoded_file (filePrefix @ show_nat now @ ''.png'') ?m bstr)"
    using f by (rule applyGenerated_settle_current)
  have es: "currentImage (handleGenerate_settle render now (Inr ?u) t)
             = Some (decoded_file (''edited-'' @ show_nat now @ ''.png'') ?m bstr)"
    using f by (rule handleGenerate_settle_current)
  show ?thesis
    unfolding u sync_handler_defs
    using f' f'' mf(3) g nv [OF g] e nv [OF e] gs nv [OF gs] es nv [OF es] by blast
qed

text \<open>
  The response with a text part and two images, answered to each operation of a session
  that shows \<open>image_A\<close>, and to a filter whose answer arrives after a new upload: the
  file of the first image is the current entry.
\<close>

theorem inline_payload_round_trip_witness:
  "resp_promptFeedback image_response = None
   \<and> resp_candidates image_response
       = Some [\<lparr>cand_parts = Some ([text_part] @ image_part # [other_image_part]),
                cand_finishReason = Some ''SAFETY''\<rparr>]
   \<and> part_inlineData text_part = None
   \<and> part_inlineData image_part
       = Some \<lparr>inline_mimeType = Some ''image/png'', inline_data = Some ''aGk=''\<rparr>
   \<and> image_media_type ''image/png'' \<and> atob ''aGk='' = Inr ''hi''
   \<and> currentImage ready_state \<noteq> None \<and> \<not> isCurrentItemVideo ready_state
   \<and> js_trim (prompt ready_state) \<noteq> [] \<and> editHotspot ready_state \<noteq> None
   \<and> handleApiResponse image_response ''filter'' = Inr ''data:image/png;base64,aGk=''
   \<and> dataURLtoFile ''data:image/png;base64,aGk='' ''f.png''
       = Inr \<lparr>file_name = ''f.png'', file_type = ''image/png'', file_bytes = [104, 105]\<rparr>
   \<and> currentImage
         (handleApplyFilter ready_state 1700000000000 (handleApiResponse image_response ''filter''))
       = Some \<lparr>file_name = ''filtered-1700000000000.png'', file_type = ''image/png'',
                file_bytes = [104, 105]\<rparr>
   \<and> \<not> isCurrentItemVideo
         (handleApplyFilter ready_state 1700000000000 (handleApiResponse image_response ''filter''))
   \<and> currentImage
         (handleGenerate ready_state 1700000000000 (handleApiResponse image_response ''filter''))
       = Some \<lparr>file_name = ''edited-1700000000000.png'', file_type = ''image/png'',
                file_bytes = [104, 105]\<rparr>
   \<and> currentImage
         (applyGenerated_settle ''filtered-'' ''Failed to apply the filter. '' False session_A
            1700000000000 (handleApiResponse image_response ''filter'') session_X)
       = Some \<lparr>file_name = ''filtered-1700000000000.png'', file_type = ''image/png'',
                file_bytes = [104, 105]\<rparr>"
proof -
  have r: "resp_promptFeedback image_response = None
       \<or> (\<exists>pf. resp_promptFeedback image_response = Some pf
              \<and> (pf_blockReason pf = None \<or> pf_blockReason pf = Some []))"
    "resp_candidates image_response
       = Some (\<lparr>cand_parts = Some [text_part, image_part, other_image_part],
                cand_finishReason = Some ''SAFETY''\<rparr> # [])"
    "cand_parts \<lparr>cand_parts = Some [text_part, image_part, other_image_part],
                 cand_finishReason = Some ''SAFETY''\<rparr>
       = Some ([text_part] @ image_part # [other_image_part])"
    "list_all (\<lambda>q. part_inlineData q = None) [text_part]"
    "part_inlineData image_part
       = Some \<lparr>inline_mimeType = Some ''image/png'', inline_data = Some ''aGk=''\<rparr>"
    by (simp_all add: image_response_def image_part_def text_part_def)
  have s: "currentImage ready_state \<noteq> None" "\<not> isCurrentItemVideo ready_state"
    by (simp_all add: ready_state_current)
  have g: "js_trim (prompt ready_state) \<noteq> []" "editHotspot ready_state \<noteq> None"
    by (simp_all add: ready_state_current)
  have l: "map ascii_lower ''image/png'' = ''image/png''"
    by (simp add: ascii_lower_def)
  have b: "map (\<lambda>c. of_nat (of_char c)) ''hi'' = [104, 105 :: byte]"
    by simp
  note w = inline_payload_round_trip [OF r image_media_type_png atob_example s,
        where ctx = "''filter''" and filename = "''f.png''" and now = 1700000000000
          and filePrefix = "''filtered-''" and failPrefix = "''Failed to apply the filter. ''"
          and resetMessage = False and render = session_A and t = session_X,
        unfolded l]
  have n: "''filtered-'' @ show_nat 1700000000000 @ ''.png'' = ''filtered-1700000000000.png''"
    "''edited-'' @ show_nat 1700000000000 @ ''.png'' = ''edited-1700000000000.png''"
    by (simp_all add: show_nat_example)
  have df: "decoded_file n ''image/png'' ''hi''
              = \<lparr>file_name = n, file_type = ''image/png'', file_bytes = [104, 105]\<rparr>" for n
    by (simp add: decoded_file_def)
  have c5: "currentImage
         (handleApplyFilter ready_state 1700000000000 (handleApiResponse image_response ''filter''))
       = Some (decoded_file (''filtered-'' @ show_nat 1700000000000 @ ''.png'') ''image/png'' ''hi'')"
    using w by (elim conjE) assumption
  have c6: "\<not> isCurrentItemVideo
         (handleApplyFilter ready_state 1700000000000 (handleApiResponse image_response ''filter''))"
    using w by (elim conjE) assumption
  have c17: "js_trim (prompt ready_state) \<noteq> [] \<and> editHotspot ready_state \<noteq> None \<longrightarrow>
        currentImage (handleGenerate ready_state 1700000000000
                        (handleApiResponse image_response ''filter''))
          = Some (decoded_file (''edited-'' @ show_nat 1700000000000 @ ''.png'') ''image/png'' ''hi'')
        \<and> \<not> isCurrentItemVideo (handleGenerate ready_state 1700000000000
                                   (handleApiResponse image_response ''filter''))"
    using w by (elim conjE) assumption
  have c18: "currentImage
         (applyGenerated_settle ''filtered-'' ''Failed to apply the filter. '' False session_A
            1700000000000 (handleApiResponse image_response ''filter'') session_X)
       = Some (decoded_file (''filtered-'' @ show_nat 1700000000000 @ ''.png'') ''image/png'' ''hi'')"
    using w by (elim conjE) assumption
  show ?thesis
  proof (intro conjI)
    show "resp_promptFeedback image_response = None"
      by (simp add: image_response_def)
    show "resp_candidates image_response
       = Some [\<lparr>cand_parts = Some ([text_part] @ image_part # [other_image_part]),
                cand_finishReason = Some ''SAFETY''\<rparr>]"
      by (simp add: image_response_def)
    show "part_inlineData text_part = None" by (simp add: text_part_def)
    show "part_inlineData image_part
       = Some \<lparr>inline_mimeType = Some ''image/png'', inline_data = Some ''aGk=''\<rparr>"
      by (rule r(5))
    show "image_media_type ''image/png''" by (rule image_media_type_png)
    show "atob ''aGk='' = Inr ''hi''" by (rule atob_example)
    show "currentImage ready_state \<noteq> None" by (rule s(1))
    show "\<not> isCurrentItemVideo ready_state" by (rule s(2))
    show "js_trim (prompt ready_state) \<noteq> []" by (rule g(1))
    show "editHotspot ready_state \<noteq> None" by (rule g(2))
    show "handleApiResponse image_response ''filter'' = Inr ''data:image/png;base64,aGk=''"
      using w [THEN conjunct1] by simp
    show "dataURLtoFile ''data:image/png;base64,aGk='' ''f.png''
       = Inr \<lparr>file_name = ''f.png'', file_type = ''image/png'', file_bytes = [104, 105]\<rparr>"
      using w [THEN conjunct2, THEN conjunct1] by simp
    show "currentImage
         (handleApplyFilter ready_state 1700000000000 (handleApiResponse image_response ''filter''))
       = Some \<lparr>file_name = ''filtered-1700000000000.png'', file_type = ''image/png'',
                file_bytes = [104, 105]\<rparr>"
      using c5 unfolding n df .
    show "\<not> isCurrentItemVideo
         (handleApplyFilter ready_state 1700000000000 (handleApiResponse image_response ''filter''))"
      by (rule c6)
    show "currentImage
         (handleGenerate ready_state 1700000000000 (handleApiResponse image_response ''filter''))
       = Some \<lparr>file_name = ''edited-1700000000000.png'', file_type = ''image/png'',
                file_bytes = [104, 105]\<rparr>"
      using c17 g unfolding n df by blast
    show "currentImage
         (applyGenerated_settle ''filtered-'' ''Failed to apply the filter. '' False session_A
            1700000000000 (handleApiResponse image_response ''filter'') session_X)
       = Some \<lparr>file_name = ''filtered-1700000000000.png'', file_type = ''image/png'',
                file_bytes = [104, 105]\<rparr>"
      using c18 unfolding n df .
  qed
qed

end
